theory Spec2Isabelle
  imports Main
begin


section \<open>JavaScript strings and numbers used by the client\<close>

text \<open>
  Strings are lists of characters. The helpers below are the few built-ins of the
  language that the record layer calls on strings: decimal rendering of a number in a
  template literal, \<^verbatim>\<open>parseInt(s, 10)\<close>, \<^verbatim>\<open>indexOf\<close>/\<^verbatim>\<open>slice\<close>/\<^verbatim>\<open>split\<close> at the first dash, the
  relational comparison of two strings (by code unit), and the regular-expression
  classes of the path tokenizer. Numbers that the code computes with are version
  counters; they are integers here (counters below 2^53, where a double is exact).
\<close>

definition is_digit :: "char \<Rightarrow> bool" where
  "is_digit c = (48 \<le> (of_char c :: nat) \<and> (of_char c :: nat) \<le> 57)"

definition digit_val :: "char \<Rightarrow> nat" where
  "digit_val c = of_char c - 48"

definition digit_char :: "nat \<Rightarrow> char" where
  "digit_char d = ''0123456789'' ! d"

fun show_nat :: "nat \<Rightarrow> string" where
  "show_nat n = (if n < 10 then [digit_char n] else show_nat (n div 10) @ [digit_char (n mod 10)])"

definition digits_val :: "string \<Rightarrow> nat" where
  "digits_val s = foldl (\<lambda>a c. 10 * a + digit_val c) 0 s"

text \<open>White space as the regular expression class \<^verbatim>\<open>\s\<close> and \<^verbatim>\<open>parseInt\<close> see it (the ASCII part).\<close>

definition is_space :: "char \<Rightarrow> bool" where
  "is_space c = (c = CHR '' '' \<or> c = CHR 0x09 \<or> c = CHR 0x0A \<or> c = CHR 0x0B \<or> c = CHR 0x0C \<or> c = CHR 0x0D)"

text \<open>
  \<^verbatim>\<open>parseInt(s, 10)\<close>: leading white space is skipped, one sign is read, then the longest
  run of decimal digits; \<open>None\<close> is \<^verbatim>\<open>NaN\<close> (no digit there).
\<close>

definition parseInt :: "string \<Rightarrow> int option" where
  "parseInt s =
     (let t = dropWhile is_space s;
          neg = (t \<noteq> [] \<and> hd t = CHR ''-'');
          u = (if t \<noteq> [] \<and> (hd t = CHR ''-'' \<or> hd t = CHR ''+'') then tl t else t);
          ds = takeWhile is_digit u
      in if ds = [] then None
         else Some (if neg then - int (digits_val ds) else int (digits_val ds)))"

text \<open>A number in a template literal: \<^verbatim>\<open>`${x}`\<close>.\<close>

definition show_num :: "int option \<Rightarrow> string" where
  "show_num x =
     (case x of None \<Rightarrow> ''NaN''
      | Some i \<Rightarrow> if i < 0 then CHR ''-'' # show_nat (nat (- i)) else show_nat (nat i))"

text \<open>\<^verbatim>\<open>a > b\<close> on numbers: false as soon as one side is \<^verbatim>\<open>NaN\<close>.\<close>

definition num_gt :: "int option \<Rightarrow> int option \<Rightarrow> bool" where
  "num_gt a b = (case (a, b) of (Some x, Some y) \<Rightarrow> x > y | _ \<Rightarrow> False)"

text \<open>\<^verbatim>\<open>a < b\<close> and \<^verbatim>\<open>a >= b\<close> on strings: lexicographic, code unit by code unit.\<close>

fun str_lt :: "string \<Rightarrow> string \<Rightarrow> bool" where
  "str_lt [] [] = False"
| "str_lt [] (y # ys) = True"
| "str_lt (x # xs) [] = False"
| "str_lt (x # xs) (y # ys) =
     ((of_char x :: nat) < of_char y \<or> (x = y \<and> str_lt xs ys))"

definition str_ge :: "string \<Rightarrow> string \<Rightarrow> bool" where
  "str_ge a b = (\<not> str_lt a b)"

section \<open>JSON values with object identity\<close>

text \<open>
  The path utility and the record compare values with \<^verbatim>\<open>===\<close>, which on arrays and
  objects is identity of reference. A value is therefore a tree whose array and object
  nodes carry the address at which they were allocated; two nodes are the same object
  exactly when their addresses agree. The code never writes to an object after it has
  handed it out (\<^verbatim>\<open>set\<close> writes only to the copies it has just made), so a node and its
  contents stay together. An object is its list of own enumerable properties in the
  order of \<^verbatim>\<open>Object.keys\<close>, with distinct keys; a property may hold \<^verbatim>\<open>undefined\<close>. An array
  is its list of elements (a hole reads as \<^verbatim>\<open>undefined\<close>). Numbers inside data are opaque
  to this code and only compared; they are integers here. Fresh addresses are taken
  from a counter that every allocating function receives and returns.
\<close>

datatype jv =
    JUndefined
  | JNull
  | JBool bool
  | JNum int
  | JStr string
  | JArr nat "jv list"
  | JObj nat "(string \<times> jv) list"

text \<open>Truthiness, as \<^verbatim>\<open>data || EMPTY\<close> and \<^verbatim>\<open>data ? a : b\<close> test it.\<close>

fun truthy :: "jv \<Rightarrow> bool" where
  "truthy JUndefined = False"
| "truthy JNull = False"
| "truthy (JBool b) = b"
| "truthy (JNum i) = (i \<noteq> 0)"
| "truthy (JStr s) = (s \<noteq> [])"
| "truthy (JArr a xs) = True"
| "truthy (JObj a kvs) = True"

text \<open>\<^verbatim>\<open>typeof v === 'object'\<close> (true of \<^verbatim>\<open>null\<close>, of arrays and of objects).\<close>

fun typeof_object :: "jv \<Rightarrow> bool" where
  "typeof_object JNull = True"
| "typeof_object (JArr a xs) = True"
| "typeof_object (JObj a kvs) = True"
| "typeof_object v = False"

fun isArray :: "jv \<Rightarrow> bool" where
  "isArray (JArr a xs) = True"
| "isArray v = False"

text \<open>\<^verbatim>\<open>a === b\<close>: by value on primitives, by address on arrays and objects.\<close>

fun strict_eq :: "jv \<Rightarrow> jv \<Rightarrow> bool" where
  "strict_eq JUndefined JUndefined = True"
| "strict_eq JNull JNull = True"
| "strict_eq (JBool a) (JBool b) = (a = b)"
| "strict_eq (JNum a) (JNum b) = (a = b)"
| "strict_eq (JStr a) (JStr b) = (a = b)"
| "strict_eq (JArr a xs) (JArr b ys) = (a = b)"
| "strict_eq (JObj a kvs) (JObj b kvs') = (a = b)"
| "strict_eq v w = False"

text \<open>
  A property key is an array index when it is the canonical decimal form of an
  integer below 2^32 - 1.
\<close>

definition array_index :: "string \<Rightarrow> nat option" where
  "array_index k =
     (if k \<noteq> [] \<and> list_all is_digit k \<and> (k = ''0'' \<or> hd k \<noteq> CHR ''0'')
         \<and> digits_val k < 2 ^ 32 - 1
      then Some (digits_val k) else None)"

text \<open>
  \<^verbatim>\<open>v[key]\<close> on an array or object: the own property, else \<^verbatim>\<open>undefined\<close>. Keys are taken
  not to name a member inherited from a prototype.
\<close>

fun get_prop :: "jv \<Rightarrow> string \<Rightarrow> jv" where
  "get_prop (JObj a kvs) k = (case map_of kvs k of Some v \<Rightarrow> v | None \<Rightarrow> JUndefined)"
| "get_prop (JArr a xs) k =
     (if k = ''length'' then JNum (int (length xs))
      else case array_index k of
             Some i \<Rightarrow> if i < length xs then xs ! i else JUndefined
           | None \<Rightarrow> JUndefined)"
| "get_prop v k = JUndefined"

text \<open>\<^verbatim>\<open>v[i]\<close> with a number \<open>i\<close>, as the array loop of \<^verbatim>\<open>patch\<close> reads the old array.\<close>

fun elem_at :: "jv \<Rightarrow> nat \<Rightarrow> jv" where
  "elem_at (JArr a xs) i = (if i < length xs then xs ! i else JUndefined)"
| "elem_at v i = JUndefined"

fun elems :: "jv \<Rightarrow> jv list" where
  "elems (JArr a xs) = xs"
| "elems v = []"

text \<open>\<^verbatim>\<open>Object.keys(v)\<close>.\<close>

fun own_keys :: "jv \<Rightarrow> string list" where
  "own_keys (JObj a kvs) = map fst kvs"
| "own_keys (JArr a xs) = map show_nat [0..<length xs]"
| "own_keys v = []"

text \<open>
  \<^verbatim>\<open>obj[key] = v\<close> on an object under construction: an existing key keeps its place, a
  new array-index key goes among the index keys in ascending order (they come first),
  any other new key goes last.
\<close>

fun insert_index :: "(string \<times> jv) list \<Rightarrow> string \<Rightarrow> nat \<Rightarrow> jv \<Rightarrow> (string \<times> jv) list" where
  "insert_index [] k i v = [(k, v)]"
| "insert_index ((k', v') # rest) k i v =
     (case array_index k' of
        Some j \<Rightarrow> if j < i then (k', v') # insert_index rest k i v else (k, v) # (k', v') # rest
      | None \<Rightarrow> (k, v) # (k', v') # rest)"

definition obj_store :: "(string \<times> jv) list \<Rightarrow> string \<Rightarrow> jv \<Rightarrow> (string \<times> jv) list" where
  "obj_store kvs k v =
     (if k \<in> fst ` set kvs then map (\<lambda>(k', v'). if k' = k then (k', v) else (k', v')) kvs
      else case array_index k of
             None \<Rightarrow> kvs @ [(k, v)]
           | Some i \<Rightarrow> insert_index kvs k i v)"

text \<open>\<^verbatim>\<open>arr[i] = v\<close>: in range it replaces, beyond the end it leaves holes before \<open>i\<close>.\<close>

definition arr_store :: "jv list \<Rightarrow> nat \<Rightarrow> jv \<Rightarrow> jv list" where
  "arr_store xs i v =
     (if i < length xs then xs[i := v]
      else xs @ replicate (i - length xs) JUndefined @ [v])"

section \<open>The path utility (src/record/json-path.js)\<close>

datatype error =
    InvalidPath string
  | InvalidDataOrPath
  | InvalidArgument string
  | InvariantViolation string
  | OutsideModel

text \<open>
  \<open>InvalidPath p\<close> is \<^verbatim>\<open>Error('invalid path ' + p)\<close>, \<open>InvalidDataOrPath\<close> is
  \<^verbatim>\<open>Error('invalid data or path')\<close>, \<open>InvalidArgument a\<close> is \<^verbatim>\<open>Error('invalid argument ' + a)\<close>
  and \<open>InvariantViolation op\<close> is what \<^verbatim>\<open>invariant(!this.isDestroyed, ...)\<close> throws in
  operation \<open>op\<close>. \<open>OutsideModel\<close> is no error of the program: it marks a write that
  would give an array a property other than an index (\<^verbatim>\<open>arr['x'] = v\<close>, \<^verbatim>\<open>arr.length = v\<close>),
  which the value type above cannot hold.
\<close>

text \<open>The shared frozen empty object \<^verbatim>\<open>EMPTY\<close>; address 0 is reserved for it.\<close>

definition EMPTY :: jv where
  "EMPTY = JObj 0 []"

text \<open>
  \<^verbatim>\<open>PARTS_REG_EXP = /([^.[\]\s]+)/g\<close>: the maximal runs of characters other than a dot, a
  bracket or white space, in order.
\<close>

definition is_sep :: "char \<Rightarrow> bool" where
  "is_sep c = (c = CHR ''.'' \<or> c = CHR ''['' \<or> c = CHR '']'' \<or> is_space c)"

fun match_parts :: "string \<Rightarrow> string \<Rightarrow> string list" where
  "match_parts cur [] = (if cur = [] then [] else [cur])"
| "match_parts cur (c # cs) =
     (if is_sep c then (if cur = [] then match_parts [] cs else cur # match_parts [] cs)
      else match_parts (cur @ [c]) cs)"

text \<open>
  \<^verbatim>\<open>tokenize(path)\<close>. The path is \<open>None\<close> for \<^verbatim>\<open>undefined\<close>. The cache only memoizes the
  result. \<^verbatim>\<open>match\<close> gives \<^verbatim>\<open>null\<close> when there is no run at all, and then the function throws.
\<close>

definition tokenize :: "string option \<Rightarrow> error + string list" where
  "tokenize path =
     (case path of
        None \<Rightarrow> Inr []
      | Some p \<Rightarrow>
          if p = [] then Inr []
          else if p = ''undefined'' then Inr []
          else (case match_parts [] p of
                  [] \<Rightarrow> Inl (InvalidPath p)
                | parts \<Rightarrow> Inr parts))"

text \<open>The loop of \<^verbatim>\<open>get\<close>, from the cursor and the tokens that remain.\<close>

fun walk :: "jv \<Rightarrow> string list \<Rightarrow> error + jv" where
  "walk d [] = Inr d"
| "walk d (t # ts) =
     (if d = JUndefined then Inr JUndefined
      else if \<not> typeof_object d \<or> d = JNull then Inl InvalidDataOrPath
      else walk (get_prop d t) ts)"

definition jsonPath_get :: "jv \<Rightarrow> string option \<Rightarrow> error + jv" where
  "jsonPath_get d path =
     (case tokenize path of
        Inl e \<Rightarrow> Inl e
      | Inr tokens \<Rightarrow> walk (if truthy d then d else EMPTY) tokens)"

text \<open>
  A cursor at which the loop of \<^verbatim>\<open>get\<close> throws when a token remains: \<^verbatim>\<open>null\<close>, or a
  primitive other than \<^verbatim>\<open>undefined\<close>.
\<close>

definition blocked :: "jv \<Rightarrow> bool" where
  "blocked c = (c \<noteq> JUndefined \<and> (\<not> typeof_object c \<or> c = JNull))"

text \<open>
  \<^verbatim>\<open>patch(oldValue, newValue)\<close>. The first function is the body; \<open>patch_arr\<close> is the
  loop over the elements of a new array and \<open>patch_obj\<close> the loop over the keys of a new
  object. The loop variable \<^verbatim>\<open>arr\<close> (\<^verbatim>\<open>obj\<close>) is \<open>None\<close> while it is \<^verbatim>\<open>null\<close> and holds the
  address and contents of the array (object) under construction afterwards; the
  address is taken from the counter where the source evaluates \<^verbatim>\<open>[]\<close> (\<^verbatim>\<open>{}\<close>).
  \<open>patch_obj\<close> runs over all properties of the new object in key order and skips those
  that the \<^verbatim>\<open>filter\<close> on \<^verbatim>\<open>newKeys\<close> removes (value \<^verbatim>\<open>undefined\<close>); \<open>i\<close> counts positions in
  \<^verbatim>\<open>newKeys\<close>.
\<close>

fun jsonPath_patch :: "nat \<Rightarrow> jv \<Rightarrow> jv \<Rightarrow> jv \<times> nat"
and patch_arr :: "nat \<Rightarrow> jv \<Rightarrow> nat \<Rightarrow> jv list \<Rightarrow> (nat \<times> jv list) option
                   \<Rightarrow> (nat \<times> jv list) option \<times> nat"
and patch_obj :: "nat \<Rightarrow> jv \<Rightarrow> string list \<Rightarrow> string list \<Rightarrow> nat \<Rightarrow> (string \<times> jv) list
                   \<Rightarrow> (nat \<times> (string \<times> jv) list) option
                   \<Rightarrow> (nat \<times> (string \<times> jv) list) option \<times> nat"
where
  "jsonPath_patch n oldValue (JArr b ys) =
     (if oldValue = JNull then (JArr b ys, n)
      else if isArray oldValue then
        (let (arr, n1) = (if length ys = length (elems oldValue) then (None, n)
                          else (Some (n, []), Suc n));
             (arr', n2) = patch_arr n1 oldValue 0 ys arr
         in (case arr' of None \<Rightarrow> oldValue | Some (a, zs) \<Rightarrow> JArr a zs, n2))
      else (if strict_eq (JArr b ys) oldValue then oldValue else JArr b ys, n))"
| "jsonPath_patch n oldValue (JObj b kvs) =
     (if oldValue = JNull then (JObj b kvs, n)
      else if typeof_object oldValue then
        (let newKeys = map fst (filter (\<lambda>(k, v). v \<noteq> JUndefined) kvs);
             oldKeys = own_keys oldValue;
             (obj, n1) = (if length newKeys = length oldKeys then (None, n)
                          else (Some (n, []), Suc n));
             (obj', n2) = patch_obj n1 oldValue newKeys oldKeys 0 kvs obj
         in (case obj' of None \<Rightarrow> oldValue | Some (a, zs) \<Rightarrow> JObj a zs, n2))
      else (if strict_eq (JObj b kvs) oldValue then oldValue else JObj b kvs, n))"
| "jsonPath_patch n oldValue newValue =
     (if oldValue = JNull \<or> newValue = JNull then (newValue, n)
      else (if strict_eq newValue oldValue then oldValue else newValue, n))"
| "patch_arr n oldValue i [] arr = (arr, n)"
| "patch_arr n oldValue i (y # ys) arr =
     (let (val, n1) = jsonPath_patch n (elem_at oldValue i) y
      in case arr of
           None \<Rightarrow>
             if strict_eq val (elem_at oldValue i) then patch_arr n1 oldValue (Suc i) ys None
             else patch_arr (Suc n1) oldValue (Suc i) ys
                    (Some (n1, arr_store (take i (elems oldValue)) i val))
         | Some (a, zs) \<Rightarrow> patch_arr n1 oldValue (Suc i) ys (Some (a, arr_store zs i val)))"
| "patch_obj n oldValue newKeys oldKeys i [] obj = (obj, n)"
| "patch_obj n oldValue newKeys oldKeys i ((key, nv) # rest) obj =
     (if nv = JUndefined then patch_obj n oldValue newKeys oldKeys i rest obj
      else
        let (val, n1) = jsonPath_patch n (get_prop oldValue key) nv
        in case obj of
             None \<Rightarrow>
               if strict_eq val (get_prop oldValue key) \<and> i < length oldKeys \<and> key = oldKeys ! i
               then patch_obj n1 oldValue newKeys oldKeys (Suc i) rest None
               else patch_obj (Suc n1) oldValue newKeys oldKeys (Suc i) rest
                      (Some (n1, obj_store
                                   (foldl (\<lambda>acc k. obj_store acc k (get_prop oldValue k)) []
                                      (take i newKeys))
                                   key val))
           | Some (a, zs) \<Rightarrow>
               patch_obj n1 oldValue newKeys oldKeys (Suc i) rest (Some (a, obj_store zs key val)))"

text \<open>
  \<^verbatim>\<open>utils.shallowCopy(obj)\<close>: a new array with the same elements, a new object with the
  same properties assigned in key order, or the argument itself when it is no object.
  \<^verbatim>\<open>set\<close> calls it on truthy data and on children that \<^verbatim>\<open>get\<close> has walked through, so
  never on \<^verbatim>\<open>null\<close> (where \<^verbatim>\<open>Object.keys\<close> would raise); the last equation is reached by
  primitives only.
\<close>

fun shallowCopy :: "nat \<Rightarrow> jv \<Rightarrow> jv \<times> nat" where
  "shallowCopy n (JArr a xs) = (JArr n xs, Suc n)"
| "shallowCopy n (JObj a kvs) =
     (JObj n (foldl (\<lambda>acc k. obj_store acc k (get_prop (JObj a kvs) k)) [] (own_keys (JObj a kvs))),
      Suc n)"
| "shallowCopy n v = (v, n)"

text \<open>\<^verbatim>\<open>node[token] = v\<close> on a node that \<^verbatim>\<open>set\<close> has just created.\<close>

fun store_prop :: "jv \<Rightarrow> string \<Rightarrow> jv \<Rightarrow> error + jv" where
  "store_prop (JObj a kvs) k v = Inr (JObj a (obj_store kvs k v))"
| "store_prop (JArr a xs) k v =
     (case array_index k of
        Some i \<Rightarrow> Inr (JArr a (arr_store xs i v))
      | None \<Rightarrow> Inl OutsideModel)"
| "store_prop w k v = Inl OutsideModel"

text \<open>
  \<^verbatim>\<open>!isNaN(token)\<close>: the token converts to a number. A token has no white space and no
  dot, which leaves signed decimal digits with an optional exponent, a signed
  \<^verbatim>\<open>Infinity\<close>, and the literals with prefix \<^verbatim>\<open>0x\<close>, \<^verbatim>\<open>0o\<close>, \<^verbatim>\<open>0b\<close>.
\<close>

definition strip_sign :: "string \<Rightarrow> string" where
  "strip_sign s = (if s \<noteq> [] \<and> (hd s = CHR ''+'' \<or> hd s = CHR ''-'') then tl s else s)"

definition dec_literal :: "string \<Rightarrow> bool" where
  "dec_literal s =
     (let ds = takeWhile is_digit s; r = dropWhile is_digit s
      in ds \<noteq> [] \<and>
         (r = [] \<or>
          ((hd r = CHR ''e'' \<or> hd r = CHR ''E'') \<and>
           strip_sign (tl r) \<noteq> [] \<and> list_all is_digit (strip_sign (tl r)))))"

definition is_hex :: "char \<Rightarrow> bool" where
  "is_hex c = (is_digit c \<or> c \<in> set ''abcdefABCDEF'')"

definition radix_literal :: "string \<Rightarrow> bool" where
  "radix_literal s =
     (case s of
        z # c # ds \<Rightarrow>
          z = CHR ''0'' \<and> ds \<noteq> [] \<and>
          (((c = CHR ''x'' \<or> c = CHR ''X'') \<and> list_all is_hex ds) \<or>
           ((c = CHR ''o'' \<or> c = CHR ''O'') \<and> list_all (\<lambda>d. d \<in> set ''01234567'') ds) \<or>
           ((c = CHR ''b'' \<or> c = CHR ''B'') \<and> list_all (\<lambda>d. d \<in> set ''01'') ds))
      | _ \<Rightarrow> False)"

definition is_numeric_token :: "string \<Rightarrow> bool" where
  "is_numeric_token t =
     (dec_literal (strip_sign t) \<or> strip_sign t = ''Infinity'' \<or> radix_literal t)"

text \<open>
  The loop of \<^verbatim>\<open>set\<close> over the tokens, from a node that was just created: the last
  token receives the new value; before that the child is copied when it exists, and
  otherwise created as an array when the next token is numeric, else as an object.
  The source stores the child and then writes into it; here the child is finished
  first and stored afterwards, at the same key.
\<close>

fun write_path :: "nat \<Rightarrow> jv \<Rightarrow> string list \<Rightarrow> jv \<Rightarrow> error + (jv \<times> nat)" where
  "write_path n node [] v = Inr (node, n)"
| "write_path n node [t] v =
     (case store_prop node t v of Inl e \<Rightarrow> Inl e | Inr node' \<Rightarrow> Inr (node', n))"
| "write_path n node (t # t' # ts) v =
     (let (child, n1) =
            (if get_prop node t \<noteq> JUndefined then shallowCopy n (get_prop node t)
             else if is_numeric_token t' then (JArr n [], Suc n)
             else (JObj n [], Suc n))
      in case write_path n1 child (t' # ts) v of
           Inl e \<Rightarrow> Inl e
         | Inr (child', n2) \<Rightarrow>
             (case store_prop node t child' of
                Inl e \<Rightarrow> Inl e
              | Inr node' \<Rightarrow> Inr (node', n2)))"

text \<open>\<^verbatim>\<open>set(data, path, value)\<close>.\<close>

definition jsonPath_set :: "nat \<Rightarrow> jv \<Rightarrow> string option \<Rightarrow> jv \<Rightarrow> error + (jv \<times> nat)" where
  "jsonPath_set n d path v =
     (case tokenize path of
        Inl e \<Rightarrow> Inl e
      | Inr tokens \<Rightarrow>
          if tokens = [] then Inr (jsonPath_patch n d v)
          else (case jsonPath_get d path of
                  Inl e \<Rightarrow> Inl e
                | Inr oldValue \<Rightarrow>
                    let (newValue, n1) = jsonPath_patch n oldValue v
                    in if strict_eq newValue oldValue then Inr (d, n1)
                       else let (result, n2) = (if truthy d then shallowCopy n1 d
                                                else (JObj n1 [], Suc n1))
                            in write_path n2 result tokens newValue))"

section \<open>JSON texts\<close>

text \<open>
  A JSON text is represented by its syntax tree. \<^verbatim>\<open>JSON.parse\<close> builds a value of new
  arrays and objects from it; \<^verbatim>\<open>JSON.stringify\<close> gives the text of a value: a property
  holding \<^verbatim>\<open>undefined\<close> is left out and an array element \<^verbatim>\<open>undefined\<close> is written \<^verbatim>\<open>null\<close>.
  Two values are structurally equal when their texts are equal, which is the test
  \<^verbatim>\<open>utils.deepEquals\<close> applies to two objects.
\<close>

datatype json =
    TNull
  | TBool bool
  | TNum int
  | TStr string
  | TArr "json list"
  | TObj "(string \<times> json) list"

fun JSON_parse :: "nat \<Rightarrow> json \<Rightarrow> jv \<times> nat"
and parse_elems :: "nat \<Rightarrow> json list \<Rightarrow> jv list \<times> nat"
and parse_members :: "nat \<Rightarrow> (string \<times> jv) list \<Rightarrow> (string \<times> json) list \<Rightarrow> (string \<times> jv) list \<times> nat"
where
  "JSON_parse n TNull = (JNull, n)"
| "JSON_parse n (TBool b) = (JBool b, n)"
| "JSON_parse n (TNum i) = (JNum i, n)"
| "JSON_parse n (TStr s) = (JStr s, n)"
| "JSON_parse n (TArr ts) = (let (xs, n1) = parse_elems (Suc n) ts in (JArr n xs, n1))"
| "JSON_parse n (TObj ms) = (let (kvs, n1) = parse_members (Suc n) [] ms in (JObj n kvs, n1))"
| "parse_elems n [] = ([], n)"
| "parse_elems n (t # ts) =
     (let (x, n1) = JSON_parse n t; (xs, n2) = parse_elems n1 ts in (x # xs, n2))"
| "parse_members n acc [] = (acc, n)"
| "parse_members n acc ((k, t) # ms) =
     (let (x, n1) = JSON_parse n t in parse_members n1 (obj_store acc k x) ms)"

fun JSON_stringify :: "jv \<Rightarrow> json" where
  "JSON_stringify JUndefined = TNull"
| "JSON_stringify JNull = TNull"
| "JSON_stringify (JBool b) = TBool b"
| "JSON_stringify (JNum i) = TNum i"
| "JSON_stringify (JStr s) = TStr s"
| "JSON_stringify (JArr a xs) = TArr (map JSON_stringify xs)"
| "JSON_stringify (JObj a kvs) =
     TObj (map (\<lambda>(k, v). (k, JSON_stringify v)) (filter (\<lambda>(k, v). v \<noteq> JUndefined) kvs))"

text \<open>
  A JSON value: no \<^verbatim>\<open>undefined\<close> anywhere, and the keys of every object are distinct.
\<close>

fun json_value :: "jv \<Rightarrow> bool" where
  "json_value JUndefined = False"
| "json_value (JArr a xs) = list_all json_value xs"
| "json_value (JObj a kvs) = (distinct (map fst kvs) \<and> list_all (\<lambda>(k, v). json_value v) kvs)"
| "json_value v = True"

text \<open>
  A value that may hold \<^verbatim>\<open>undefined\<close> in properties of objects but nowhere else (not as
  an array element), again with distinct keys in every object.
\<close>

fun plain :: "jv \<Rightarrow> bool" where
  "plain JUndefined = False"
| "plain (JArr a xs) = list_all plain xs"
| "plain (JObj a kvs) =
     (distinct (map fst kvs) \<and> list_all (\<lambda>(k, v). v = JUndefined \<or> plain v) kvs)"
| "plain v = True"

section \<open>Version tokens (utils.splitRev, utils.compareVersions)\<close>

text \<open>
  \<^verbatim>\<open>splitRev(s)\<close> cuts a token at its first dash: \<^verbatim>\<open>[s.slice(0, i), s.slice(i + 1)]\<close> with
  \<^verbatim>\<open>i = s.indexOf('-')\<close>. Without a dash \<open>i\<close> is -1, so the first part drops the last
  character and the second part is the whole string. For the empty string the result
  is the empty array (\<open>None\<close>), whose two destructured parts are \<^verbatim>\<open>undefined\<close>.
\<close>

definition splitRev :: "string \<Rightarrow> (string \<times> string) option" where
  "splitRev s =
     (if s = [] then None
      else if CHR ''-'' \<in> set s
      then Some (takeWhile (\<lambda>c. c \<noteq> CHR ''-'') s, tl (dropWhile (\<lambda>c. c \<noteq> CHR ''-'') s))
      else Some (butlast s, s))"

text \<open>
  \<^verbatim>\<open>compareVersions(a, b)\<close>; a version is \<open>None\<close> when it is \<^verbatim>\<open>null\<close> or \<^verbatim>\<open>undefined\<close>. With
  a part \<^verbatim>\<open>undefined\<close> every comparison of the last line is false.
\<close>

definition compareVersions :: "string option \<Rightarrow> string option \<Rightarrow> bool" where
  "compareVersions a b =
     (case a of
        None \<Rightarrow> False
      | Some a' \<Rightarrow>
          if a' = [] then False
          else (case b of
                  None \<Rightarrow> True
                | Some b' \<Rightarrow>
                    if b' = [] then True
                    else (case (splitRev a', splitRev b') of
                            (Some (av, ar), Some (bv, br)) \<Rightarrow>
                              num_gt (parseInt av) (parseInt bv) \<or> (av = bv \<and> str_ge ar br)
                          | _ \<Rightarrow> False)))"




section \<open>The record (Record, unnamed/part_000)\<close>

text \<open>
  Messages the record passes to \<^verbatim>\<open>connection.sendMsg(C.TOPIC.RECORD, action, data)\<close>, and
  the record-topic messages it receives. An inbound \<^verbatim>\<open>UPDATE\<close> carries the version
  (\<open>None\<close> when the field is missing) and the JSON text of the data; an inbound
  \<^verbatim>\<open>SUBSCRIPTION_HAS_PROVIDER\<close> carries the flag that \<^verbatim>\<open>convertTyped\<close> yields.
\<close>

datatype out_msg =
    READ string
  | UNSUBSCRIBE string
  | UPDATE string string jv "string option"

datatype in_msg =
    MsgUPDATE "string option" json
  | MsgHAS_PROVIDER bool
  | MsgOther

datatype conn_state =
    CLOSED | AWAITING_CONNECTION | CHALLENGING | AWAITING_AUTHENTICATION
  | AUTHENTICATING | OPEN | RECONNECTING | ERROR

text \<open>
  A promise returned by \<^verbatim>\<open>whenReady\<close>, and the two listeners \<^verbatim>\<open>whenReady\<close> registers with
  \<^verbatim>\<open>this.once\<close>: \<^verbatim>\<open>resolve\<close> and \<^verbatim>\<open>() => reject(new Error('destroyed'))\<close>, each for the
  promise of the given number.
\<close>

datatype promise = Pending | Resolved | Rejected string

datatype listener = Resolve nat | Reject nat string

text \<open>How a call ends: it returns a value or throws.\<close>

datatype 'a outcome = Returns 'a | Throws error

text \<open>
  The fields of a Record object, and what the model records of its surroundings. The
  event emitter is the library \<^verbatim>\<open>component-emitter\<close>, which is not part of the sources;
  it is modelled by its documented interface: \<^verbatim>\<open>on\<close> and \<^verbatim>\<open>once\<close> append a listener to the
  listeners of an event, \<^verbatim>\<open>emit\<close> calls the listeners registered for the event at that
  moment, a \<^verbatim>\<open>once\<close> listener removes itself when it is called, and \<^verbatim>\<open>off()\<close> without
  arguments removes every listener. \<open>callbacks\<close> are the listeners of the record's own
  emitter (the ones \<^verbatim>\<open>whenReady\<close> adds); \<open>pathCallbacks\<close> are the registrations of the
  private emitter \<^verbatim>\<open>_eventEmitter\<close>, each an event name (a path) and a number that stands
  for the subscriber's function. Subscriber functions are foreign code: they are taken
  to return normally and not to call back into the record. \<open>sent\<close> lists the calls of
  \<^verbatim>\<open>sendMsg\<close>, \<open>promises\<close> the promises handed out, \<open>notified\<close> the calls of subscriber
  functions (path, function, value), \<open>emitted\<close> the events emitted on the record, and
  \<open>alloc\<close> is the first unused address, above every address in the values the caller
  passes in.
\<close>

record record_obj =
  name :: string
  usages :: int
  isDestroyed :: bool
  isReady :: bool
  isSubscribed :: bool
  hasProvider :: bool
  version :: "string option"
  data :: jv
  patchQueue :: "(string \<times> jv) list option"
  callbacks :: "(string \<times> listener) list"
  pathCallbacks :: "(string \<times> nat) list"
  sent :: "out_msg list"
  promises :: "promise list"
  notified :: "(string \<times> nat \<times> jv) list"
  emitted :: "string list"
  alloc :: nat

text \<open>The constructor: it validates the name and sends \<^verbatim>\<open>READ\<close>.\<close>

definition new_Record :: "string \<Rightarrow> nat \<Rightarrow> error + record_obj" where
  "new_Record nm first_free =
     (if nm = [] then Inl (InvalidArgument ''name'')
      else Inr \<lparr> name = nm, usages = 0, isDestroyed = False, isReady = False,
                 isSubscribed = True, hasProvider = False, version = None,
                 data = JUndefined, patchQueue = Some [], callbacks = [],
                 pathCallbacks = [], sent = [READ nm], promises = [], notified = [],
                 emitted = [], alloc = first_free \<rparr>)"

text \<open>\<^verbatim>\<open>this.emit(event)\<close> on the record's own emitter.\<close>

definition run_listener :: "promise list \<Rightarrow> listener \<Rightarrow> promise list" where
  "run_listener ps h =
     (case h of
        Resolve p \<Rightarrow> if p < length ps \<and> ps ! p = Pending then ps[p := Resolved] else ps
      | Reject p msg \<Rightarrow> if p < length ps \<and> ps ! p = Pending then ps[p := Rejected msg] else ps)"

definition emit :: "string \<Rightarrow> record_obj \<Rightarrow> record_obj" where
  "emit ev r =
     r\<lparr> callbacks := filter (\<lambda>(e, h). e \<noteq> ev) (callbacks r),
        promises := foldl run_listener (promises r) (map snd (filter (\<lambda>(e, h). e = ev) (callbacks r))),
        emitted := emitted r @ [ev] \<rparr>"

text \<open>\<^verbatim>\<open>Record.prototype.get\<close>.\<close>

definition Record_get :: "record_obj \<Rightarrow> string option \<Rightarrow> jv outcome \<times> record_obj" where
  "Record_get r path =
     (if isDestroyed r then (Throws (InvariantViolation ''get''), r)
      else case jsonPath_get (data r) path of
             Inl e \<Rightarrow> (Throws e, r)
           | Inr v \<Rightarrow> (Returns v, r))"

text \<open>
  \<^verbatim>\<open>Record.prototype._applyChange\<close>. \<open>notify\<close> is its loop over
  \<^verbatim>\<open>Object.keys(this._eventEmitter._callbacks)\<close>; the early return on a missing table is
  the case of no registration.
\<close>

fun notify :: "jv \<Rightarrow> jv \<Rightarrow> string list \<Rightarrow> record_obj \<Rightarrow> unit outcome \<times> record_obj" where
  "notify newData oldData [] r = (Returns (), r)"
| "notify newData oldData (p # ps) r =
     (case jsonPath_get newData (Some p) of
        Inl e \<Rightarrow> (Throws e, r)
      | Inr newValue \<Rightarrow>
          (case jsonPath_get oldData (Some p) of
             Inl e \<Rightarrow> (Throws e, r)
           | Inr oldValue \<Rightarrow>
               if \<not> strict_eq newValue oldValue then
                 (case Record_get r (Some p) of
                    (Throws e, r') \<Rightarrow> (Throws e, r')
                  | (Returns v, r') \<Rightarrow>
                      notify newData oldData ps
                        (r'\<lparr> notified := notified r' @
                               map (\<lambda>(e, cb). (p, cb, v))
                                 (filter (\<lambda>(e, cb). e = p) (pathCallbacks r')) \<rparr>))
               else notify newData oldData ps r))"

definition applyChange :: "jv \<Rightarrow> record_obj \<Rightarrow> unit outcome \<times> record_obj" where
  "applyChange newData r =
     (if isDestroyed r then (Returns (), r)
      else if pathCallbacks r = [] then (Returns (), r\<lparr>data := newData\<rparr>)
      else notify newData (data r) (remdups (map fst (pathCallbacks r))) (r\<lparr>data := newData\<rparr>))"

text \<open>
  \<^verbatim>\<open>Record.prototype._dispatchUpdate\<close>; \<open>nonce\<close> is what \<^verbatim>\<open>xuid()\<close> returns in this call.
  \<open>next_version\<close> is its first two lines: the counter is read with
  \<^verbatim>\<open>parseInt(this.version.split('-')[0], 10)\<close>, or is 0 when the version is not set, and
  the new token is \<^verbatim>\<open>`${start + 1}-${xuid()}`\<close>.
\<close>

definition next_version :: "string option \<Rightarrow> string \<Rightarrow> string" where
  "next_version ver nonce =
     (let start = (case ver of
                     None \<Rightarrow> Some 0
                   | Some v \<Rightarrow> if v = [] then Some 0
                              else parseInt (takeWhile (\<lambda>c. c \<noteq> CHR ''-'') v))
      in show_num (map_option (\<lambda>x. x + 1) start) @ ''-'' @ nonce)"

definition dispatchUpdate :: "string \<Rightarrow> record_obj \<Rightarrow> record_obj" where
  "dispatchUpdate nonce r =
     (let version' = next_version (version r) nonce
      in r\<lparr> sent := sent r @ [UPDATE (name r) version' (data r) (version r)],
            version := Some version' \<rparr>)"

text \<open>
  \<^verbatim>\<open>Record.prototype.set\<close>. \<open>path = None\<close> is the call with one argument (or with
  \<^verbatim>\<open>undefined\<close> as path); a path is a string by type. \<open>enqueue\<close> is the statement that
  pushes the write onto the patch queue or drops the queue; it runs first and touches
  only the queue, so the record it yields is the one in which the rest of \<^verbatim>\<open>set\<close> runs.
\<close>

definition enqueue :: "record_obj \<Rightarrow> string option \<Rightarrow> jv \<Rightarrow> record_obj" where
  "enqueue r path d =
     (case (path, patchQueue r) of
        (Some p, Some q) \<Rightarrow> r\<lparr>patchQueue := Some (q @ [(p, d)])\<rparr>
      | _ \<Rightarrow> r\<lparr>patchQueue := None\<rparr>)"

definition Record_set :: "record_obj \<Rightarrow> string option \<Rightarrow> jv \<Rightarrow> string \<Rightarrow> unit outcome \<times> record_obj" where
  "Record_set r path d nonce =
     (if isDestroyed r then (Throws (InvariantViolation ''set''), r)
      else if path = None \<and> \<not> typeof_object d then (Throws (InvalidArgument ''data''), r)
      else if path = Some [] then (Throws (InvalidArgument ''path''), r)
      else
        case jsonPath_set (alloc r) (data r) path d of
          Inl e \<Rightarrow> (Throws e, enqueue r path d)
        | Inr (newValue, n) \<Rightarrow>
            if strict_eq (data r) newValue then (Returns (), (enqueue r path d)\<lparr>alloc := n\<rparr>)
            else (case applyChange newValue ((enqueue r path d)\<lparr>alloc := n\<rparr>) of
                    (Throws e, r3) \<Rightarrow> (Throws e, r3)
                  | (Returns u, r3) \<Rightarrow>
                      (Returns (), if isReady r3 then dispatchUpdate nonce r3 else r3)))"

text \<open>
  \<^verbatim>\<open>Record.prototype.subscribe\<close> and \<^verbatim>\<open>unsubscribe\<close>, after \<^verbatim>\<open>_normalizeArguments\<close>: the
  path (\<open>None\<close> when no string was passed), the function (\<open>None\<close> when none was passed)
  and the flag. A listener for the absent path is stored under the event name
  \<^verbatim>\<open>undefined\<close>. The removal is the library's; it is modelled as the removal of the
  matching registrations.
\<close>

definition event_name :: "string option \<Rightarrow> string" where
  "event_name path = (case path of None \<Rightarrow> ''undefined'' | Some p \<Rightarrow> p)"

definition Record_subscribe :: "record_obj \<Rightarrow> string option \<Rightarrow> nat option \<Rightarrow> bool \<Rightarrow> unit outcome \<times> record_obj" where
  "Record_subscribe r path callback triggerNow =
     (if isDestroyed r then (Throws (InvariantViolation ''subscribe''), r)
      else if path = Some [] then (Throws (InvalidArgument ''path''), r)
      else case callback of
             None \<Rightarrow> (Throws (InvalidArgument ''callback''), r)
           | Some cb \<Rightarrow>
               let r1 = r\<lparr>pathCallbacks := pathCallbacks r @ [(event_name path, cb)]\<rparr>
               in if triggerNow \<and> truthy (data r1) then
                    (case Record_get r1 path of
                       (Throws e, r2) \<Rightarrow> (Throws e, r2)
                     | (Returns v, r2) \<Rightarrow>
                         (Returns (), r2\<lparr>notified := notified r2 @ [(event_name path, cb, v)]\<rparr>))
                  else (Returns (), r1))"

definition Record_unsubscribe :: "record_obj \<Rightarrow> string option \<Rightarrow> nat option \<Rightarrow> unit outcome \<times> record_obj" where
  "Record_unsubscribe r path callback =
     (if isDestroyed r then (Throws (InvariantViolation ''unsubscribe''), r)
      else if path = Some [] then (Throws (InvalidArgument ''path''), r)
      else (Returns (),
            r\<lparr>pathCallbacks :=
                 filter (\<lambda>(e, cb). \<not> (e = event_name path \<and> (callback = None \<or> callback = Some cb)))
                   (pathCallbacks r)\<rparr>))"

text \<open>
  \<^verbatim>\<open>Record.prototype.whenReady\<close>; the result is the number of the new promise. The
  \<^verbatim>\<open>invariant\<close> throws before the line that would return a rejected promise.
\<close>

definition Record_whenReady :: "record_obj \<Rightarrow> nat outcome \<times> record_obj" where
  "Record_whenReady r =
     (if isDestroyed r then (Throws (InvariantViolation ''whenReady''), r)
      else if isReady r then (Returns (length (promises r)), r\<lparr>promises := promises r @ [Resolved]\<rparr>)
      else (Returns (length (promises r)),
            r\<lparr> promises := promises r @ [Pending],
               callbacks := callbacks r @
                 [(''ready'', Resolve (length (promises r))),
                  (''destroy'', Reject (length (promises r)) ''destroyed'')] \<rparr>))"

text \<open>\<^verbatim>\<open>Record.prototype.discard(silent)\<close>.\<close>

definition Record_discard :: "record_obj \<Rightarrow> bool \<Rightarrow> unit outcome \<times> record_obj" where
  "Record_discard r silent =
     (if \<not> (silent \<or> \<not> isDestroyed r) then (Throws (InvariantViolation ''discard''), r)
      else if isDestroyed r then (Returns (), r)
      else (Returns (), r\<lparr>usages := usages r - 1\<rparr>))"

text \<open>
  \<^verbatim>\<open>Record.prototype.destroy\<close>, line by line: the \<^verbatim>\<open>UNSUBSCRIBE\<close>, the fields, both
  \<^verbatim>\<open>off()\<close> calls, and then \<^verbatim>\<open>this.emit('destroy', this.name)\<close>.
\<close>

definition Record_destroy :: "record_obj \<Rightarrow> record_obj" where
  "Record_destroy r =
     (let r1 = (if isSubscribed r then r\<lparr>sent := sent r @ [UNSUBSCRIBE (name r)]\<rparr> else r);
          r2 = r1\<lparr> isDestroyed := True, isSubscribed := False, data := JUndefined,
                   patchQueue := Some [] \<rparr>;
          r3 = r2\<lparr>pathCallbacks := []\<rparr>;
          r4 = r3\<lparr>callbacks := []\<rparr>
      in emit ''destroy'' r4)"

text \<open>
  \<^verbatim>\<open>Record.prototype._applyUpdate\<close>, \<^verbatim>\<open>_onRead\<close> and \<^verbatim>\<open>_$onMessage\<close>. \<open>replay\<close> is the loop
  of \<^verbatim>\<open>_onRead\<close> over the patch queue, and \<open>initial_value\<close> the value \<^verbatim>\<open>_onRead\<close> settles
  on before it touches the record: \<^verbatim>\<open>this._data || oldValue\<close>, or the replay on top of
  \<^verbatim>\<open>oldValue\<close> when there is a queue.
\<close>

definition applyUpdate :: "record_obj \<Rightarrow> string option \<Rightarrow> json \<Rightarrow> unit outcome \<times> record_obj" where
  "applyUpdate r ver payload =
     (if compareVersions (version r) ver then (Returns (), r)
      else
        let r1 = r\<lparr>version := ver\<rparr>;
            (parsed, n1) = JSON_parse (alloc r1) payload
        in case jsonPath_set n1 (data r1) None parsed of
             Inl e \<Rightarrow> (Throws e, r1\<lparr>alloc := n1\<rparr>)
           | Inr (merged, n2) \<Rightarrow> applyChange merged (r1\<lparr>alloc := n2\<rparr>))"

fun replay :: "nat \<Rightarrow> jv \<Rightarrow> (string \<times> jv) list \<Rightarrow> error + (jv \<times> nat)" where
  "replay n v [] = Inr (v, n)"
| "replay n v ((p, d) # q) =
     (case jsonPath_set n v (Some p) d of
        Inl e \<Rightarrow> Inl e
      | Inr (v', n') \<Rightarrow> replay n' v' q)"

definition initial_value :: "record_obj \<Rightarrow> nat \<Rightarrow> jv \<Rightarrow> error + (jv \<times> nat)" where
  "initial_value r n oldValue =
     (case patchQueue r of
        None \<Rightarrow> Inr (if truthy (data r) then data r else oldValue, n)
      | Some q \<Rightarrow> replay n oldValue q)"

definition onRead :: "record_obj \<Rightarrow> string option \<Rightarrow> json \<Rightarrow> string \<Rightarrow> unit outcome \<times> record_obj" where
  "onRead r ver payload nonce =
     (let (oldValue, n0) = JSON_parse (alloc r) payload
      in case initial_value r n0 oldValue of
           Inl e \<Rightarrow> (Throws e, r\<lparr>alloc := n0\<rparr>)
         | Inr (newValue, n1) \<Rightarrow>
             (case applyChange newValue
                     (r\<lparr>alloc := n1, patchQueue := None, isReady := True, version := ver\<rparr>) of
                (Throws e, r2) \<Rightarrow> (Throws e, r2)
              | (Returns u, r2) \<Rightarrow>
                  (Returns (),
                   emit ''ready''
                     (if \<not> strict_eq newValue oldValue then dispatchUpdate nonce r2 else r2))))"

definition Record_onMessage :: "record_obj \<Rightarrow> in_msg \<Rightarrow> string \<Rightarrow> unit outcome \<times> record_obj" where
  "Record_onMessage r msg nonce =
     (if isDestroyed r then (Throws (InvariantViolation ''_$onMessage''), r)
      else case msg of
             MsgUPDATE ver payload \<Rightarrow>
               if \<not> isReady r then onRead r ver payload nonce else applyUpdate r ver payload
           | MsgHAS_PROVIDER flag \<Rightarrow> (Returns (), emit ''hasProviderChanged'' (r\<lparr>hasProvider := flag\<rparr>))
           | MsgOther \<Rightarrow> (Returns (), r))"



text \<open>
  The record named \<^verbatim>\<open>r\<close> as \<^verbatim>\<open>getRecord\<close> hands it out when it has just created it: the
  constructor's fields, and one usage.
\<close>

definition fresh_example :: record_obj where
  "fresh_example =
     \<lparr> name = ''r'', usages = 1, isDestroyed = False, isReady = False, isSubscribed = True,
       hasProvider = False, version = None, data = JUndefined, patchQueue = Some [],
       callbacks = [], pathCallbacks = [], sent = [READ ''r''], promises = [],
       notified = [], emitted = [], alloc = 1 \<rparr>"

text \<open>
  A record that is not ready yet, after \<^verbatim>\<open>set('a.b', 1)\<close> and \<^verbatim>\<open>set('a.c', 2)\<close> on a new
  record named \<^verbatim>\<open>r\<close>.
\<close>

definition unready_example :: record_obj where
  "unready_example =
     \<lparr> name = ''r'', usages = 1, isDestroyed = False, isReady = False, isSubscribed = True,
       hasProvider = False, version = None,
       data = JObj 3 [(''a'', JObj 4 [(''b'', JNum 1), (''c'', JNum 2)])],
       patchQueue = Some [(''a.b'', JNum 1), (''a.c'', JNum 2)], callbacks = [],
       pathCallbacks = [], sent = [READ ''r''], promises = [], notified = [],
       emitted = [], alloc = 5 \<rparr>"

text \<open>
  \<open>fresh_example\<close> after a call of \<^verbatim>\<open>whenReady()\<close>: promise 0 is pending, and its two
  listeners are registered.
\<close>

definition waiting_example :: record_obj where
  "waiting_example =
     fresh_example\<lparr> promises := [Pending],
                    callbacks := [(''ready'', Resolve 0), (''destroy'', Reject 0 ''destroyed'')] \<rparr>"

section \<open>Sequences of operations on one record\<close>




text \<open>
  The versions of the \<^verbatim>\<open>UPDATE\<close> messages among the messages sent, in order, and the
  counter of a version as \<^verbatim>\<open>_dispatchUpdate\<close> reads it.
\<close>

fun update_versions :: "out_msg list \<Rightarrow> string list" where
  "update_versions [] = []"
| "update_versions (UPDATE nm v d pv # ms) = v # update_versions ms"
| "update_versions (m # ms) = update_versions ms"





text \<open>
  What a call may do to the version, to the versions sent and to the ready flag: leave
  them (\<open>same_core\<close>), or send one \<^verbatim>\<open>UPDATE\<close> with the next version and adopt it
  (\<open>dispatched\<close>).
\<close>

definition same_core :: "record_obj \<Rightarrow> record_obj \<Rightarrow> bool" where
  "same_core r r' =
     (version r' = version r \<and> update_versions (sent r') = update_versions (sent r)
      \<and> isReady r' = isReady r)"

definition dispatched :: "string \<Rightarrow> string option \<Rightarrow> record_obj \<Rightarrow> record_obj \<Rightarrow> bool" where
  "dispatched nonce ver r r' =
     (version r' = Some (next_version ver nonce)
      \<and> update_versions (sent r') = update_versions (sent r) @ [next_version ver nonce]
      \<and> isReady r')"

section \<open>The registry (RecordHandler, src/record/record-handler.js)\<close>

text \<open>
  Record objects are shared by the registry's map, its vector and the handles given
  to callers, so they live in a store, \<open>objects\<close>, and are referred to by their index
  in it. \<open>recordsMap\<close> is the \<^verbatim>\<open>Map\<close> from names to records and \<open>recordsVec\<close> the parallel
  array.
\<close>

record record_handler =
  recordsMap :: "string \<Rightarrow> nat option"
  recordsVec :: "nat list"
  objects :: "record_obj list"

definition new_RecordHandler :: record_handler where
  "new_RecordHandler = \<lparr> recordsMap = (\<lambda>nm. None), recordsVec = [], objects = [] \<rparr>"

text \<open>
  \<^verbatim>\<open>RecordHandler.prototype.getRecord\<close>; the result is the handle. \<open>first_free\<close> goes to
  the constructor when a record is created.
\<close>

definition getRecord :: "record_handler \<Rightarrow> string \<Rightarrow> nat \<Rightarrow> nat outcome \<times> record_handler" where
  "getRecord h recordName first_free =
     (case recordsMap h recordName of
        Some i \<Rightarrow>
          (Returns i,
           h\<lparr>objects := (objects h)[i := (objects h ! i)\<lparr>usages := usages (objects h ! i) + 1\<rparr>]\<rparr>)
      | None \<Rightarrow>
          (case new_Record recordName first_free of
             Inl e \<Rightarrow> (Throws e, h)
           | Inr r \<Rightarrow>
               (Returns (length (objects h)),
                h\<lparr> recordsMap := (recordsMap h)(recordName := Some (length (objects h))),
                   recordsVec := recordsVec h @ [length (objects h)],
                   objects := objects h @ [r\<lparr>usages := usages r + 1\<rparr>] \<rparr>)))"

text \<open>
  The body of the idle callback of \<^verbatim>\<open>_prune\<close>: the loop with its two indices, and the
  final \<^verbatim>\<open>vec.splice(i)\<close>. The source spells the call that destroys a record
  \<^verbatim>\<open>vec[i]._$destroy()\<close>; the destroy method the sources define is \<open>Record_destroy\<close>.
\<close>

function prune_loop :: "record_handler \<Rightarrow> nat \<Rightarrow> nat \<Rightarrow> record_handler \<times> nat" where
  "prune_loop h i j =
     (if i < j then
        (if usages (objects h ! (recordsVec h ! i)) = 0 \<and> isReady (objects h ! (recordsVec h ! i))
         then prune_loop
                (h\<lparr> recordsMap := (recordsMap h)(name (objects h ! (recordsVec h ! i)) := None),
                    objects := (objects h)[recordsVec h ! i :=
                                 Record_destroy (objects h ! (recordsVec h ! i))],
                    recordsVec := (recordsVec h)[i := recordsVec h ! (j - 1)] \<rparr>)
                i (j - 1)
         else prune_loop h (Suc i) j)
      else (h, i))"
  by pat_completeness auto
termination
  by (relation "measure (\<lambda>(h, i, j). j - i)") auto

definition prune :: "record_handler \<Rightarrow> record_handler" where
  "prune h =
     (let (h', i) = prune_loop h 0 (length (recordsVec h))
      in h'\<lparr>recordsVec := take i (recordsVec h')\<rparr>)"

text \<open>
  What happens to a registry: a call of \<^verbatim>\<open>getRecord\<close>, a call of \<^verbatim>\<open>discard\<close> on a handle,
  a run of the pruner, and a record-topic message routed by \<^verbatim>\<open>_$handle\<close> to the record
  of that name.
\<close>

datatype hop =
    HGetRecord string nat
  | HDiscard nat bool
  | HPrune
  | HHandle string in_msg string

fun hstep :: "record_handler \<Rightarrow> hop \<Rightarrow> record_handler" where
  "hstep h (HGetRecord nm first_free) = snd (getRecord h nm first_free)"
| "hstep h (HDiscard i silent) =
     (if i < length (objects h)
      then h\<lparr>objects := (objects h)[i := snd (Record_discard (objects h ! i) silent)]\<rparr>
      else h)"
| "hstep h HPrune = prune h"
| "hstep h (HHandle nm m nonce) =
     (case recordsMap h nm of
        Some i \<Rightarrow> h\<lparr>objects := (objects h)[i := snd (Record_onMessage (objects h ! i) m nonce)]\<rparr>
      | None \<Rightarrow> h)"

definition hrun :: "record_handler \<Rightarrow> hop list \<Rightarrow> record_handler" where
  "hrun h ops = foldl hstep h ops"


section \<open>The heartbeat of the connection\<close>

text \<open>
  The sources hold two versions of the Connection: unnamed/part_002 and
  src/message/connection.js. Both are modelled, as far as the heartbeat goes: the
  timer callback \<^verbatim>\<open>_checkHeartBeat\<close>, the branches of \<^verbatim>\<open>_handleConnectionResponse\<close> for
  \<^verbatim>\<open>PING\<close> and \<^verbatim>\<open>PONG\<close> (the other branches belong to the handshake), and what these call:
  \<^verbatim>\<open>_submit\<close>, \<^verbatim>\<open>_onError\<close>, \<^verbatim>\<open>_reset\<close> and \<^verbatim>\<open>_setState\<close>. Functions of connection.js carry the
  suffix \<open>connjs\<close>. \<^verbatim>\<open>Date.now()\<close> is the argument \<open>now\<close>, in milliseconds.

  The fields: \<open>state\<close> is \<^verbatim>\<open>_state\<close>; \<open>lastHeartBeat\<close> is \<^verbatim>\<open>_lastHeartBeat\<close> (\<open>None\<close> for
  \<^verbatim>\<open>null\<close>, which counts as 0 in the subtraction); \<open>heartbeatHandle\<close> says that
  \<^verbatim>\<open>_heartbeatInterval\<close> holds a timer handle and \<open>heartbeatTicking\<close> that this timer has
  not been cleared; \<open>messageSender\<close> says that a flush is scheduled; \<open>endpointOpen\<close> is
  \<^verbatim>\<open>endpoint.readyState === endpoint.OPEN\<close>; \<open>endpointSent\<close> lists the frames given to
  \<^verbatim>\<open>endpoint.send\<close>, \<open>endpointCloses\<close> counts the calls of \<^verbatim>\<open>endpoint.close()\<close>,
  \<open>clientErrors\<close> lists the calls of \<^verbatim>\<open>client._$onError\<close> on topic \<^verbatim>\<open>CONNECTION\<close> (event,
  message), \<open>deferredErrors\<close> the reports \<^verbatim>\<open>_onError\<close> schedules with \<^verbatim>\<open>setTimeout\<close>, and
  \<open>stateEvents\<close> the \<^verbatim>\<open>connectionStateChanged\<close> events emitted.
\<close>

datatype heartbeat = PING | PONG

record connection =
  state :: conn_state
  lastHeartBeat :: "int option"
  heartbeatHandle :: bool
  heartbeatTicking :: bool
  messageSender :: bool
  queuedMessages :: "string list"
  endpointOpen :: bool
  endpointSent :: "heartbeat list"
  endpointCloses :: nat
  clientErrors :: "(string \<times> string) list"
  deferredErrors :: "string list"
  stateEvents :: "conn_state list"
  heartbeatIntervalOption :: int

subsection \<open>unnamed/part_002\<close>

definition reset :: "connection \<Rightarrow> connection" where
  "reset c =
     (let c1 = (if heartbeatHandle c
                then c\<lparr>heartbeatTicking := False, heartbeatHandle := False, lastHeartBeat := None\<rparr>
                else c)
      in if messageSender c1 then c1\<lparr>messageSender := False, queuedMessages := []\<rparr> else c1)"

definition setState :: "connection \<Rightarrow> conn_state \<Rightarrow> connection" where
  "setState c st =
     (if state c = st then c else c\<lparr>state := st, stateEvents := stateEvents c @ [st]\<rparr>)"

definition onError :: "connection \<Rightarrow> string \<Rightarrow> connection" where
  "onError c msg =
     (let c1 = setState (reset c) ERROR
      in c1\<lparr>deferredErrors := deferredErrors c1 @ [msg]\<rparr>)"

definition submit :: "connection \<Rightarrow> heartbeat \<Rightarrow> connection" where
  "submit c frame =
     (if endpointOpen c then c\<lparr>endpointSent := endpointSent c @ [frame]\<rparr>
      else onError c ''Tried to send message on a closed websocket connection'')"

definition elapsed :: "connection \<Rightarrow> int \<Rightarrow> int" where
  "elapsed c now = now - (case lastHeartBeat c of None \<Rightarrow> 0 | Some t \<Rightarrow> t)"

definition heartbeat_lost :: "connection \<Rightarrow> int \<Rightarrow> connection" where
  "heartbeat_lost c tolerance =
     c\<lparr> heartbeatTicking := False,
        endpointCloses := endpointCloses c + 1,
        clientErrors := clientErrors c @
          [(''CONNECTION_ERROR'',
            ''heartbeat not received in the last '' @ show_num (Some tolerance) @ '' milliseconds'')] \<rparr>"

definition checkHeartBeat :: "connection \<Rightarrow> int \<Rightarrow> connection" where
  "checkHeartBeat c now =
     (let heartBeatTolerance = heartbeatIntervalOption c * 3
      in if elapsed c now > heartBeatTolerance then heartbeat_lost c heartBeatTolerance
         else submit c PING)"

definition handleConnectionResponse :: "connection \<Rightarrow> int \<Rightarrow> heartbeat \<Rightarrow> connection" where
  "handleConnectionResponse c now action =
     (case action of
        PING \<Rightarrow> submit (c\<lparr>lastHeartBeat := Some now\<rparr>) PONG
      | PONG \<Rightarrow> c\<lparr>lastHeartBeat := Some now\<rparr>)"

subsection \<open>src/message/connection.js\<close>

text \<open>
  Here \<^verbatim>\<open>_setState\<close> assigns and emits without a test, \<^verbatim>\<open>_onError\<close> only clears the
  heartbeat timer, the tolerance is twice the interval, \<^verbatim>\<open>_checkHeartBeat\<close> has no
  \<^verbatim>\<open>else\<close> branch, and \<^verbatim>\<open>_handleConnectionResponse\<close> has no branch for \<^verbatim>\<open>PONG\<close>.
\<close>

definition setState_connjs :: "connection \<Rightarrow> conn_state \<Rightarrow> connection" where
  "setState_connjs c st = c\<lparr>state := st, stateEvents := stateEvents c @ [st]\<rparr>"

definition onError_connjs :: "connection \<Rightarrow> string \<Rightarrow> connection" where
  "onError_connjs c msg =
     (let c1 = setState_connjs (c\<lparr>heartbeatTicking := False\<rparr>) ERROR
      in c1\<lparr>deferredErrors := deferredErrors c1 @ [msg]\<rparr>)"

definition submit_connjs :: "connection \<Rightarrow> heartbeat \<Rightarrow> connection" where
  "submit_connjs c frame =
     (if endpointOpen c then c\<lparr>endpointSent := endpointSent c @ [frame]\<rparr>
      else onError_connjs c ''Tried to send message on a closed websocket connection'')"

definition checkHeartBeat_connjs :: "connection \<Rightarrow> int \<Rightarrow> connection" where
  "checkHeartBeat_connjs c now =
     (let heartBeatTolerance = heartbeatIntervalOption c * 2
      in if elapsed c now > heartBeatTolerance then heartbeat_lost c heartBeatTolerance
         else c)"

definition handleConnectionResponse_connjs :: "connection \<Rightarrow> int \<Rightarrow> heartbeat \<Rightarrow> connection" where
  "handleConnectionResponse_connjs c now action =
     (case action of
        PING \<Rightarrow> submit_connjs (c\<lparr>lastHeartBeat := Some now\<rparr>) PONG
      | PONG \<Rightarrow> c)"

text \<open>
  An open connection with the default interval of 30000 ms whose last heartbeat
  arrived at time 0.
\<close>

definition open_example :: connection where
  "open_example =
     \<lparr> state = OPEN, lastHeartBeat = Some 0, heartbeatHandle = True, heartbeatTicking = True,
       messageSender = False, queuedMessages = [], endpointOpen = True, endpointSent = [],
       endpointCloses = 0, clientErrors = [], deferredErrors = [], stateEvents = [],
       heartbeatIntervalOption = 30000 \<rparr>"

section \<open>Properties of the path utility\<close>

lemma strict_eq_refl: "strict_eq v v"
  by (cases v) auto


lemma get_prop_blocked: "blocked c \<Longrightarrow> get_prop c t = JUndefined"
  by (cases c) (auto simp: blocked_def)





subsection \<open>patch returns the old value when nothing changed\<close>

lemma json_value_plain: "json_value v \<Longrightarrow> plain v"
proof (induction v)
  case (JArr a xs)
  then show ?case by (auto simp: list_all_iff)
next
  case (JObj a kvs)
  then show ?case by (fastforce simp: list_all_iff)
qed auto

lemma json_value_not_undefined: "json_value v \<Longrightarrow> v \<noteq> JUndefined"
  by auto

lemma filter_json_props:
  "list_all (\<lambda>(k, v). json_value v) kvs \<Longrightarrow> filter (\<lambda>(k, v). v \<noteq> JUndefined) kvs = kvs"
  by (induction kvs) auto

lemma patch_arr_same:
  assumes IH: "\<And>y n a. y \<in> set ys \<Longrightarrow> json_value a \<Longrightarrow> plain y
                 \<Longrightarrow> JSON_stringify a = JSON_stringify y \<Longrightarrow> jsonPath_patch n a y = (a, n)"
    and "list_all json_value xs" and "list_all plain ys"
    and "map JSON_stringify (drop i xs) = map JSON_stringify ys"
  shows "patch_arr n (JArr a xs) i ys None = (None, n)"
  using assms
proof (induction ys arbitrary: i)
  case Nil
  then show ?case by simp
next
  case (Cons y ys)
  from Cons.prems(4) have ne: "drop i xs \<noteq> []" by auto
  then have i: "i < length xs" by simp
  then have d: "drop i xs = xs ! i # drop (Suc i) xs"
    by (simp add: Cons_nth_drop_Suc)
  from Cons.prems(4) d have s: "JSON_stringify (xs ! i) = JSON_stringify y"
    and r: "map JSON_stringify (drop (Suc i) xs) = map JSON_stringify ys"
    by auto
  from Cons.prems(2) i have j: "json_value (xs ! i)"
    by (simp add: list_all_length)
  from Cons.prems(3) have py: "plain y" and pys: "list_all plain ys" by auto
  have p: "jsonPath_patch n (xs ! i) y = (xs ! i, n)"
    using Cons.prems(1)[of y "xs ! i" n] j py s by simp
  have sub: "\<And>y n a. y \<in> set ys \<Longrightarrow> json_value a \<Longrightarrow> plain y
               \<Longrightarrow> JSON_stringify a = JSON_stringify y \<Longrightarrow> jsonPath_patch n a y = (a, n)"
    using Cons.prems(1) by (meson list.set_intros(2))
  have "patch_arr n (JArr a xs) (Suc i) ys None = (None, n)"
    by (rule Cons.IH[OF sub Cons.prems(2) pys r])
  then show ?case using p i by (simp add: strict_eq_refl)
qed

lemma map_of_nth_distinct:
  "distinct (map fst kvs) \<Longrightarrow> i < length kvs \<Longrightarrow> map_of kvs (fst (kvs ! i)) = Some (snd (kvs ! i))"
  by (simp add: nth_mem)

lemma patch_obj_same:
  assumes IH: "\<And>k v n a. (k, v) \<in> set rest \<Longrightarrow> json_value a \<Longrightarrow> plain v
                 \<Longrightarrow> JSON_stringify a = JSON_stringify v \<Longrightarrow> jsonPath_patch n a v = (a, n)"
    and "distinct (map fst kvs)" and "list_all (\<lambda>(k, v). json_value v) kvs"
    and "list_all (\<lambda>(k, v). v = JUndefined \<or> plain v) rest"
    and "map (\<lambda>(k, v). (k, JSON_stringify v)) (drop i kvs)
         = map (\<lambda>(k, v). (k, JSON_stringify v)) (filter (\<lambda>(k, v). v \<noteq> JUndefined) rest)"
  shows "patch_obj n (JObj a kvs) newKeys (map fst kvs) i rest None = (None, n)"
  using assms
proof (induction rest arbitrary: i)
  case Nil
  then show ?case by simp
next
  case (Cons kv rest)
  obtain key nv where kv: "kv = (key, nv)" by (cases kv)
  have sub: "\<And>k v n a. (k, v) \<in> set rest \<Longrightarrow> json_value a \<Longrightarrow> plain v
               \<Longrightarrow> JSON_stringify a = JSON_stringify v \<Longrightarrow> jsonPath_patch n a v = (a, n)"
    using Cons.prems(1) by (meson list.set_intros(2))
  show ?case
  proof (cases "nv = JUndefined")
    case True
    from Cons.prems(4) have pr: "list_all (\<lambda>(k, v). v = JUndefined \<or> plain v) rest" by simp
    from Cons.prems(5) True kv
    have r: "map (\<lambda>(k, v). (k, JSON_stringify v)) (drop i kvs)
             = map (\<lambda>(k, v). (k, JSON_stringify v)) (filter (\<lambda>(k, v). v \<noteq> JUndefined) rest)"
      by simp
    have "patch_obj n (JObj a kvs) newKeys (map fst kvs) i rest None = (None, n)"
      by (rule Cons.IH[OF sub Cons.prems(2) Cons.prems(3) pr r])
    then show ?thesis using True kv by simp
  next
    case False
    from Cons.prems(5) False kv have ne: "drop i kvs \<noteq> []" by auto
    then have i: "i < length kvs" by simp
    then have d: "drop i kvs = kvs ! i # drop (Suc i) kvs"
      by (simp add: Cons_nth_drop_Suc)
    obtain k' v' where e: "kvs ! i = (k', v')" by (cases "kvs ! i")
    from Cons.prems(5) d e False kv have k: "k' = key"
      and s: "JSON_stringify v' = JSON_stringify nv"
      and r: "map (\<lambda>(k, v). (k, JSON_stringify v)) (drop (Suc i) kvs)
              = map (\<lambda>(k, v). (k, JSON_stringify v)) (filter (\<lambda>(k, v). v \<noteq> JUndefined) rest)"
      by auto
    have g: "get_prop (JObj a kvs) key = v'"
      using map_of_nth_distinct[OF Cons.prems(2) i] e k by simp
    from Cons.prems(3) i e have j: "json_value v'"
      by (auto simp: list_all_length split: prod.splits)
    from Cons.prems(4) kv False have pn: "plain nv"
      and pr: "list_all (\<lambda>(k, v). v = JUndefined \<or> plain v) rest" by auto
    have p: "jsonPath_patch n v' nv = (v', n)"
      using Cons.prems(1)[of key nv v' n] kv j pn s by simp
    have "patch_obj n (JObj a kvs) newKeys (map fst kvs) (Suc i) rest None = (None, n)"
      by (rule Cons.IH[OF sub Cons.prems(2) Cons.prems(3) pr r])
    then show ?thesis using False kv g p i e k by (simp add: strict_eq_refl)
  qed
qed

lemma stringify_arr:
  "json_value a \<Longrightarrow> JSON_stringify a = TArr ts \<Longrightarrow> \<exists>a' xs. a = JArr a' xs"
  by (cases a) auto

lemma stringify_obj:
  "json_value a \<Longrightarrow> JSON_stringify a = TObj ms \<Longrightarrow> \<exists>a' kvs. a = JObj a' kvs"
  by (cases a) auto

lemma patch_same:
  "json_value a \<Longrightarrow> plain b \<Longrightarrow> JSON_stringify a = JSON_stringify b
   \<Longrightarrow> jsonPath_patch n a b = (a, n)"
proof (induction b arbitrary: a n)
  case JUndefined
  then show ?case by simp
next
  case JNull
  then show ?case by (cases a) auto
next
  case (JBool x)
  then show ?case by (cases a) auto
next
  case (JNum x)
  then show ?case by (cases a) auto
next
  case (JStr x)
  then show ?case by (cases a) auto
next
  case (JArr b ys)
  from JArr.prems obtain a' xs where a: "a = JArr a' xs"
    using stringify_arr[of a "map JSON_stringify ys"] by auto
  with JArr.prems have m: "map JSON_stringify xs = map JSON_stringify ys" by simp
  then have l: "length xs = length ys" by (rule map_eq_imp_length_eq)
  have "patch_arr n (JArr a' xs) 0 ys None = (None, n)"
  proof (rule patch_arr_same)
    show "\<And>y n a. y \<in> set ys \<Longrightarrow> json_value a \<Longrightarrow> plain y
            \<Longrightarrow> JSON_stringify a = JSON_stringify y \<Longrightarrow> jsonPath_patch n a y = (a, n)"
      using JArr.IH by blast
    show "list_all json_value xs" using JArr.prems(1) a by simp
    show "list_all plain ys" using JArr.prems(2) by simp
    show "map JSON_stringify (drop 0 xs) = map JSON_stringify ys" using m by simp
  qed
  then show ?case using a l by simp
next
  case (JObj b kvs)
  let ?f = "filter (\<lambda>(k, v). v \<noteq> JUndefined) kvs"
  from JObj.prems obtain a' kvs0 where a: "a = JObj a' kvs0"
    using stringify_obj[of a "map (\<lambda>(k, v). (k, JSON_stringify v)) ?f"] by auto
  from JObj.prems(1) a have dk: "distinct (map fst kvs0)"
    and jk: "list_all (\<lambda>(k, v). json_value v) kvs0" by auto
  from JObj.prems(3) a filter_json_props[OF jk]
  have m: "map (\<lambda>(k, v). (k, JSON_stringify v)) kvs0 = map (\<lambda>(k, v). (k, JSON_stringify v)) ?f"
    by simp
  then have l: "length (map fst ?f) = length (map fst kvs0)"
    using map_eq_imp_length_eq by fastforce
  have "patch_obj n (JObj a' kvs0) (map fst ?f) (map fst kvs0) 0 kvs None = (None, n)"
  proof (rule patch_obj_same)
    show "\<And>k v n a. (k, v) \<in> set kvs \<Longrightarrow> json_value a \<Longrightarrow> plain v
            \<Longrightarrow> JSON_stringify a = JSON_stringify v \<Longrightarrow> jsonPath_patch n a v = (a, n)"
      using JObj.IH by fastforce
    show "distinct (map fst kvs0)" by (rule dk)
    show "list_all (\<lambda>(k, v). json_value v) kvs0" by (rule jk)
    show "list_all (\<lambda>(k, v). v = JUndefined \<or> plain v) kvs" using JObj.prems(2) by simp
    show "map (\<lambda>(k, v). (k, JSON_stringify v)) (drop 0 kvs0)
          = map (\<lambda>(k, v). (k, JSON_stringify v)) ?f" using m by simp
  qed
  then show ?case using a l by simp
qed

text \<open>
  Claim C5. For every JSON value \<open>a\<close>, \<^verbatim>\<open>patch(a, a)\<close> returns \<open>a\<close> itself; and for JSON
  values \<open>a\<close> and \<open>b\<close> that are structurally equal (same JSON text, so same keys in the
  same order), \<^verbatim>\<open>patch(a, b)\<close> returns \<open>a\<close>. The result is the very node \<open>a\<close>, address
  included, and nothing is allocated.
\<close>

theorem patch_reference_identity:
  assumes "json_value a" and "json_value b"
  shows "jsonPath_patch n a a = (a, n)
         \<and> (JSON_stringify a = JSON_stringify b \<longrightarrow> jsonPath_patch n a b = (a, n))"
  using assms by (simp add: patch_same json_value_plain)

theorem patch_reference_identity_witness:
  "json_value (JObj 1 [(''x'', JArr 2 [JNum 1, JNull]), (''y'', JStr ''s'')])
   \<and> json_value (JObj 3 [(''x'', JArr 4 [JNum 1, JNull]), (''y'', JStr ''s'')])
   \<and> JSON_stringify (JObj 1 [(''x'', JArr 2 [JNum 1, JNull]), (''y'', JStr ''s'')])
       = JSON_stringify (JObj 3 [(''x'', JArr 4 [JNum 1, JNull]), (''y'', JStr ''s'')])
   \<and> jsonPath_patch 5 (JObj 1 [(''x'', JArr 2 [JNum 1, JNull]), (''y'', JStr ''s'')])
         (JObj 1 [(''x'', JArr 2 [JNum 1, JNull]), (''y'', JStr ''s'')])
       = (JObj 1 [(''x'', JArr 2 [JNum 1, JNull]), (''y'', JStr ''s'')], 5)
   \<and> jsonPath_patch 5 (JObj 1 [(''x'', JArr 2 [JNum 1, JNull]), (''y'', JStr ''s'')])
         (JObj 3 [(''x'', JArr 4 [JNum 1, JNull]), (''y'', JStr ''s'')])
       = (JObj 1 [(''x'', JArr 2 [JNum 1, JNull]), (''y'', JStr ''s'')], 5)"
proof -
  let ?a = "JObj 1 [(''x'', JArr 2 [JNum 1, JNull]), (''y'', JStr ''s'')]"
  let ?b = "JObj 3 [(''x'', JArr 4 [JNum 1, JNull]), (''y'', JStr ''s'')]"
  have ja: "json_value ?a" and jb: "json_value ?b" by simp_all
  have st: "JSON_stringify ?a = JSON_stringify ?b" by simp
  from patch_reference_identity[OF ja jb, of 5] st
  have "jsonPath_patch 5 ?a ?a = (?a, 5)" and "jsonPath_patch 5 ?a ?b = (?a, 5)" by blast+
  with ja jb st show ?thesis by blast
qed

text \<open>
  Claim C7. For every JSON object \<open>d\<close> and every object \<open>v\<close> whose properties other
  than those holding \<^verbatim>\<open>undefined\<close> are exactly the properties of \<open>d\<close>, in order, a set at
  the root path returns \<open>d\<close> itself. The instance after it is the seed case
  \<^verbatim>\<open>jsonPath.set({a:1,b:2}, undefined, {a:1,b:2,c:undefined})\<close>.
\<close>

theorem set_root_undefined_extras:
  assumes "json_value (JObj a kvs)" and "distinct (map fst kvs')"
    and "filter (\<lambda>(k, v). v \<noteq> JUndefined) kvs' = kvs" and "tokenize path = Inr []"
  shows "jsonPath_set n (JObj a kvs) path (JObj b kvs') = Inr (JObj a kvs, n)"
proof -
  from assms(1) have jk: "list_all (\<lambda>(k, v). json_value v) kvs" by simp
  have "list_all (\<lambda>(k, v). v = JUndefined \<or> plain v) kvs'"
    unfolding list_all_iff
  proof
    fix kv assume m: "kv \<in> set kvs'"
    obtain k v where kv: "kv = (k, v)" by (cases kv)
    show "case kv of (k, v) \<Rightarrow> v = JUndefined \<or> plain v"
    proof (cases "v = JUndefined")
      case True
      then show ?thesis using kv by simp
    next
      case False
      with m kv have "(k, v) \<in> set (filter (\<lambda>(k, v). v \<noteq> JUndefined) kvs')" by simp
      with assms(3) have "(k, v) \<in> set kvs" by simp
      with jk have "json_value v" by (auto simp: list_all_iff)
      then show ?thesis using kv by (simp add: json_value_plain)
    qed
  qed
  with assms(2) have p: "plain (JObj b kvs')" by simp
  have s: "JSON_stringify (JObj a kvs) = JSON_stringify (JObj b kvs')"
    using assms(3) filter_json_props[OF jk] by simp
  show ?thesis
    using assms(4) patch_same[OF assms(1) p s, of n] by (simp add: jsonPath_set_def)
qed

theorem set_root_undefined_extras_witness:
  "jsonPath_set 5 (JObj 1 [(''a'', JNum 1), (''b'', JNum 2)]) None
     (JObj 2 [(''a'', JNum 1), (''b'', JNum 2), (''c'', JUndefined)])
   = Inr (JObj 1 [(''a'', JNum 1), (''b'', JNum 2)], 5)"
proof -
  have 1: "json_value (JObj 1 [(''a'', JNum 1), (''b'', JNum 2)])" by simp
  have 2: "distinct (map fst [(''a'', JNum 1), (''b'', JNum 2), (''c'', JUndefined)])" by simp
  have 3: "filter (\<lambda>(k, v). v \<noteq> JUndefined) [(''a'', JNum 1), (''b'', JNum 2), (''c'', JUndefined)]
           = [(''a'', JNum 1), (''b'', JNum 2)]" by simp
  have 4: "tokenize None = Inr []" by (simp add: tokenize_def)
  show ?thesis by (rule set_root_undefined_extras[OF 1 2 3 4])
qed

section \<open>Version tokens\<close>

declare show_nat.simps [simp del]





















lemma show_nat_digit: "d < 10 \<Longrightarrow> show_nat d = [digit_char d]"
  by (subst show_nat.simps) simp

lemma show_nat_small: "show_nat 0 = ''0''" "show_nat 1 = ''1''" "show_nat 2 = ''2''" "show_nat 3 = ''3''"
  by (simp_all add: show_nat_digit digit_char_def)

section \<open>Properties of the record\<close>

lemma Record_get_state: "snd (Record_get r p) = r"
  by (simp add: Record_get_def split: sum.splits)

lemma notify_state: "\<exists>ns. snd (notify nd od ps r) = r\<lparr>notified := ns\<rparr>"
proof (induction ps arbitrary: r)
  case Nil
  show ?case by (rule exI[of _ "notified r"]) simp
next
  case (Cons p ps)
  have self: "\<exists>ns. r = r\<lparr>notified := ns\<rparr>"
    by (rule exI[of _ "notified r"]) simp
  show ?case
  proof (cases "jsonPath_get nd (Some p)")
    case (Inl e)
    then show ?thesis using self by simp
  next
    case (Inr nv)
    note nv = this
    show ?thesis
    proof (cases "jsonPath_get od (Some p)")
      case (Inl e)
      then show ?thesis using self nv by simp
    next
      case (Inr ov)
      note ov = this
      show ?thesis
      proof (cases "strict_eq nv ov")
        case True
        then show ?thesis using nv ov Cons.IH[of r] by simp
      next
        case False
        show ?thesis
        proof (cases "Record_get r (Some p)")
          case (Pair out r')
          with Record_get_state[of r "Some p"] have r': "r' = r" by simp
          show ?thesis
          proof (cases out)
            case (Throws e)
            then show ?thesis using nv ov False Pair r' self by simp
          next
            case (Returns v)
            let ?r1 = "r\<lparr>notified := notified r @ map (\<lambda>(e, cb). (p, cb, v))
                         (filter (\<lambda>(e, cb). e = p) (pathCallbacks r))\<rparr>"
            from Cons.IH[of ?r1] obtain ns where "snd (notify nd od ps ?r1) = ?r1\<lparr>notified := ns\<rparr>"
              by blast
            then have "snd (notify nd od ps ?r1) = r\<lparr>notified := ns\<rparr>" by simp
            then show ?thesis using nv ov False Pair r' Returns by auto
          qed
        qed
      qed
    qed
  qed
qed

lemma applyChange_state:
  "\<not> isDestroyed r \<Longrightarrow> \<exists>ns. snd (applyChange nd r) = r\<lparr>data := nd, notified := ns\<rparr>"
proof -
  assume nd: "\<not> isDestroyed r"
  show ?thesis
  proof (cases "pathCallbacks r = []")
    case True
    show ?thesis using nd True
      by (intro exI[of _ "notified r"]) (simp add: applyChange_def)
  next
    case False
    from notify_state[of nd "data r" "remdups (map fst (pathCallbacks r))" "r\<lparr>data := nd\<rparr>"]
    show ?thesis using nd False by (simp add: applyChange_def)
  qed
qed

lemma jsonPath_set_root: "tokenize path = Inr [] \<Longrightarrow> jsonPath_set n d path v = Inr (jsonPath_patch n d v)"
  by (simp add: jsonPath_set_def)

lemma tokenize_None: "tokenize None = Inr []"
  by (simp add: tokenize_def)




subsection \<open>The first UPDATE\<close>

lemma applyChange_returns:
  assumes "\<not> isDestroyed r" and "fst (applyChange nd r) = Returns ()"
  shows "\<exists>ns. applyChange nd r = (Returns (), r\<lparr>data := nd, notified := ns\<rparr>)"
proof -
  from applyChange_state[OF assms(1), of nd] obtain ns
    where "snd (applyChange nd r) = r\<lparr>data := nd, notified := ns\<rparr>" by blast
  with assms(2) have "applyChange nd r = (Returns (), r\<lparr>data := nd, notified := ns\<rparr>)"
    by (cases "applyChange nd r") simp
  then show ?thesis by blast
qed



lemmas path_eval =
  jsonPath_set_def jsonPath_get_def tokenize_def is_sep_def is_space_def EMPTY_def
  obj_store_def array_index_def is_digit_def is_numeric_token_def strip_sign_def
  dec_literal_def radix_literal_def

lemma next_version_examples:
  "next_version (Some ''1-X'') ''N'' = ''2-N''"
  "next_version None ''N'' = ''1-N''"
  by (simp_all add: next_version_def parseInt_def is_space_def is_digit_def digits_val_def
      digit_val_def show_num_def show_nat_digit digit_char_def)


lemma unready_example_reached:
  "snd (Record_set (snd (Record_set fresh_example (Some ''a.b'') (JNum 1) k))
         (Some ''a.c'') (JNum 2) k')
   = unready_example"
  by (simp add: Record_set_def enqueue_def applyChange_def unready_example_def fresh_example_def path_eval)



lemma Record_set_root_clears_queue:
  assumes "\<not> isDestroyed r" and "typeof_object d"
  shows "patchQueue (snd (Record_set r None d nonce)) = None"
proof -
  let ?r1 = "r\<lparr>patchQueue := None\<rparr>"
  obtain nv n where p: "jsonPath_patch (alloc r) (data r) d = (nv, n)"
    by (cases "jsonPath_patch (alloc r) (data r) d")
  then have js: "jsonPath_set (alloc r) (data r) None d = Inr (nv, n)"
    by (simp add: jsonPath_set_root tokenize_None)
  show ?thesis
  proof (cases "strict_eq (data r) nv")
    case True
    then show ?thesis using assms js by (simp add: Record_set_def enqueue_def)
  next
    case False
    have nd: "\<not> isDestroyed (?r1\<lparr>alloc := n\<rparr>)" using assms(1) by simp
    from applyChange_state[OF nd, of nv] obtain ns
      where s: "snd (applyChange nv (?r1\<lparr>alloc := n\<rparr>)) = ?r1\<lparr>alloc := n, data := nv, notified := ns\<rparr>"
      by auto
    obtain out r3 where ac: "applyChange nv (?r1\<lparr>alloc := n\<rparr>) = (out, r3)"
      by (cases "applyChange nv (?r1\<lparr>alloc := n\<rparr>)")
    with s have r3: "r3 = ?r1\<lparr>alloc := n, data := nv, notified := ns\<rparr>" by simp
    show ?thesis
      using assms js False ac r3
      by (cases out) (simp_all add: Record_set_def enqueue_def dispatchUpdate_def Let_def)
  qed
qed

text \<open>
  Claim C10, as the code has it. A root set on a live record discards the patch queue
  (last conjunct). When the first \<^verbatim>\<open>UPDATE\<close> then arrives at the record, not yet ready,
  without a queue and with truthy local data, and the change notification returns,
  the record keeps its local data, is ready, and sends one \<^verbatim>\<open>UPDATE\<close> with its data and
  the next version after the server's exactly when its data is not the parsed snapshot
  itself; without it the record holds the server's version.
\<close>

theorem onRead_after_root_set:
  assumes "\<not> isDestroyed r" and "\<not> isReady r" and "patchQueue r = None" and "truthy (data r)"
    and "JSON_parse (alloc r) payload = (snapshot, n0)"
    and "fst (applyChange (data r) (r\<lparr>alloc := n0, patchQueue := None, isReady := True, version := ver\<rparr>))
         = Returns ()"
  shows "fst (Record_onMessage r (MsgUPDATE ver payload) nonce) = Returns ()
       \<and> data (snd (Record_onMessage r (MsgUPDATE ver payload) nonce)) = data r
       \<and> isReady (snd (Record_onMessage r (MsgUPDATE ver payload) nonce))
       \<and> sent (snd (Record_onMessage r (MsgUPDATE ver payload) nonce))
           = sent r @ (if strict_eq (data r) snapshot then []
                       else [UPDATE (name r) (next_version ver nonce) (data r) ver])
       \<and> version (snd (Record_onMessage r (MsgUPDATE ver payload) nonce))
           = (if strict_eq (data r) snapshot then ver else Some (next_version ver nonce))
       \<and> (\<forall>r0 d k. \<not> isDestroyed r0 \<and> typeof_object d \<longrightarrow>
             patchQueue (snd (Record_set r0 None d k)) = None)"
proof -
  let ?r1 = "r\<lparr>alloc := n0, patchQueue := None, isReady := True, version := ver\<rparr>"
  have nd: "\<not> isDestroyed ?r1" using assms(1) by simp
  from applyChange_returns[OF nd assms(6)] obtain ns
    where ac: "applyChange (data r) ?r1 = (Returns (), ?r1\<lparr>data := data r, notified := ns\<rparr>)" by blast
  have m: "Record_onMessage r (MsgUPDATE ver payload) nonce = onRead r ver payload nonce"
    using assms(1,2) by (simp add: Record_onMessage_def)
  have o: "onRead r ver payload nonce =
             (Returns (), emit ''ready''
                (if \<not> strict_eq (data r) snapshot
                 then dispatchUpdate nonce (?r1\<lparr>data := data r, notified := ns\<rparr>)
                 else ?r1\<lparr>data := data r, notified := ns\<rparr>))"
    using assms(3,4,5) ac by (simp add: onRead_def initial_value_def)
  have e: "\<forall>r0 d k. \<not> isDestroyed r0 \<and> typeof_object d \<longrightarrow>
             patchQueue (snd (Record_set r0 None d k)) = None"
    using Record_set_root_clears_queue by blast
  show ?thesis
    using e by (simp add: m o emit_def dispatchUpdate_def Let_def)
qed

theorem onRead_after_root_set_witness:
  "\<not> isDestroyed fresh_example \<and> typeof_object (JObj 100 [(''y'', JNum 1)])
   \<and> Record_set (fresh_example\<lparr>alloc := 101\<rparr>) None (JObj 100 [(''y'', JNum 1)]) ''K''
       = (Returns (), fresh_example\<lparr>alloc := 101, patchQueue := None, data := JObj 100 [(''y'', JNum 1)]\<rparr>)
   \<and> truthy (JObj 100 [(''y'', JNum 1)])
   \<and> fst (Record_onMessage
            (fresh_example\<lparr>alloc := 101, patchQueue := None, data := JObj 100 [(''y'', JNum 1)]\<rparr>)
            (MsgUPDATE (Some ''1-X'') (TObj [(''x'', TNum 1)])) ''N'') = Returns ()
   \<and> data (snd (Record_onMessage
            (fresh_example\<lparr>alloc := 101, patchQueue := None, data := JObj 100 [(''y'', JNum 1)]\<rparr>)
            (MsgUPDATE (Some ''1-X'') (TObj [(''x'', TNum 1)])) ''N'')) = JObj 100 [(''y'', JNum 1)]
   \<and> isReady (snd (Record_onMessage
            (fresh_example\<lparr>alloc := 101, patchQueue := None, data := JObj 100 [(''y'', JNum 1)]\<rparr>)
            (MsgUPDATE (Some ''1-X'') (TObj [(''x'', TNum 1)])) ''N''))
   \<and> sent (snd (Record_onMessage
            (fresh_example\<lparr>alloc := 101, patchQueue := None, data := JObj 100 [(''y'', JNum 1)]\<rparr>)
            (MsgUPDATE (Some ''1-X'') (TObj [(''x'', TNum 1)])) ''N''))
       = [READ ''r'', UPDATE ''r'' ''2-N'' (JObj 100 [(''y'', JNum 1)]) (Some ''1-X'')]
   \<and> version (snd (Record_onMessage
            (fresh_example\<lparr>alloc := 101, patchQueue := None, data := JObj 100 [(''y'', JNum 1)]\<rparr>)
            (MsgUPDATE (Some ''1-X'') (TObj [(''x'', TNum 1)])) ''N'')) = Some ''2-N''"
proof -
  let ?d = "JObj 100 [(''y'', JNum 1)]"
  let ?r = "fresh_example\<lparr>alloc := 101, patchQueue := None, data := ?d\<rparr>"
  have h1: "\<not> isDestroyed ?r" and h2: "\<not> isReady ?r" and h3: "patchQueue ?r = None"
    and h4: "truthy (data ?r)"
    by (simp_all add: fresh_example_def)
  have h5: "JSON_parse (alloc ?r) (TObj [(''x'', TNum 1)]) = (JObj 101 [(''x'', JNum 1)], 102)"
    by (simp add: fresh_example_def obj_store_def array_index_def is_digit_def)
  have h6: "fst (applyChange (data ?r) (?r\<lparr>alloc := 102, patchQueue := None, isReady := True,
                  version := Some ''1-X''\<rparr>)) = Returns ()"
    by (simp add: applyChange_def fresh_example_def)
  note t = onRead_after_root_set[OF h1 h2 h3 h4 h5 h6, of "''N''"]
  have s: "Record_set (fresh_example\<lparr>alloc := 101\<rparr>) None ?d ''K'' = (Returns (), ?r)"
    by (simp add: Record_set_def enqueue_def applyChange_def fresh_example_def path_eval)
  have f: "\<not> isDestroyed fresh_example" "sent ?r = [READ ''r'']" "name ?r = ''r''" "data ?r = ?d"
    by (simp_all add: fresh_example_def)
  from t s f show ?thesis
    by (simp add: next_version_examples)
qed

text \<open>
  Claim C10 as stated fails for the root value \<^verbatim>\<open>null\<close>, which \<^verbatim>\<open>set\<close> accepts
  (\<^verbatim>\<open>typeof null\<close> is \<^verbatim>\<open>'object'\<close>): \<^verbatim>\<open>this._data || oldValue\<close> then takes the server's
  snapshot, the local \<^verbatim>\<open>null\<close> is lost, and no \<^verbatim>\<open>UPDATE\<close> follows although \<^verbatim>\<open>null\<close> is not
  the snapshot.
\<close>

theorem onRead_after_root_set_counterexample:
  "\<not> isDestroyed fresh_example \<and> \<not> isReady fresh_example \<and> typeof_object JNull
   \<and> Record_set fresh_example None JNull ''K''
       = (Returns (), fresh_example\<lparr>patchQueue := None, data := JNull\<rparr>)
   \<and> Record_onMessage (fresh_example\<lparr>patchQueue := None, data := JNull\<rparr>)
         (MsgUPDATE (Some ''1-X'') (TObj [(''x'', TNum 1)])) ''N''
       = (Returns (),
          fresh_example\<lparr> patchQueue := None, data := JObj 1 [(''x'', JNum 1)], isReady := True,
                          version := Some ''1-X'', emitted := [''ready''], alloc := 2 \<rparr>)
   \<and> \<not> strict_eq JNull (JObj 1 [(''x'', JNum 1)])
   \<and> sent (fresh_example\<lparr> patchQueue := None, data := JObj 1 [(''x'', JNum 1)], isReady := True,
                          version := Some ''1-X'', emitted := [''ready''], alloc := 2 \<rparr>)
       = [READ ''r'']"
  by (simp add: Record_set_def enqueue_def Record_onMessage_def onRead_def initial_value_def applyChange_def emit_def
      fresh_example_def path_eval)

subsection \<open>Destruction\<close>

lemma destroyed_operations_fail:
  assumes "isDestroyed r"
  shows "Record_get r p = (Throws (InvariantViolation ''get''), r)"
    and "Record_set r p d k = (Throws (InvariantViolation ''set''), r)"
    and "Record_subscribe r p cb now = (Throws (InvariantViolation ''subscribe''), r)"
    and "Record_unsubscribe r p cb = (Throws (InvariantViolation ''unsubscribe''), r)"
    and "Record_whenReady r = (Throws (InvariantViolation ''whenReady''), r)"
    and "Record_discard r False = (Throws (InvariantViolation ''discard''), r)"
  using assms
  by (simp_all add: Record_get_def Record_set_def enqueue_def Record_subscribe_def Record_unsubscribe_def
      Record_whenReady_def Record_discard_def)

lemma Record_destroy_isDestroyed: "isDestroyed (Record_destroy r)"
  by (simp add: Record_destroy_def emit_def Let_def)

lemma Record_destroy_promises: "promises (Record_destroy r) = promises r"
  by (simp add: Record_destroy_def emit_def Let_def)

text \<open>
  Claim C4. After \<^verbatim>\<open>destroy\<close> every public operation throws the invariant violation
  (lemma \<open>destroyed_operations_fail\<close>; \<^verbatim>\<open>discard\<close> as called without the \<^verbatim>\<open>silent\<close> flag).
  The second half of the claim is what \<^verbatim>\<open>whenReady\<close> prepares, and \<^verbatim>\<open>destroy\<close> misses it:
  \<^verbatim>\<open>whenReady\<close> registers \<^verbatim>\<open>once('destroy', () => reject(new Error('destroyed')))\<close>, and an
  emitted \<^verbatim>\<open>destroy\<close> would reject the promise; but \<^verbatim>\<open>destroy\<close> calls \<^verbatim>\<open>this.off()\<close>, which
  removes every listener, before \<^verbatim>\<open>this.emit('destroy', this.name)\<close>. The promise that
  was pending stays pending (lemma \<open>Record_destroy_promises\<close>: \<^verbatim>\<open>destroy\<close> settles no
  promise at all). The theorem runs a new record through \<^verbatim>\<open>whenReady()\<close> and \<^verbatim>\<open>destroy()\<close>.
\<close>

theorem destroy_leaves_whenReady_pending:
  "Record_whenReady fresh_example = (Returns 0, waiting_example)
   \<and> promises waiting_example ! 0 = Pending
   \<and> promises (emit ''destroy'' waiting_example) ! 0 = Rejected ''destroyed''
   \<and> promises (Record_destroy waiting_example) ! 0 = Pending
   \<and> isDestroyed (Record_destroy waiting_example)
   \<and> fst (Record_get (Record_destroy waiting_example) None) = Throws (InvariantViolation ''get'')
   \<and> fst (Record_set (Record_destroy waiting_example) None (JObj 9 []) ''K'')
       = Throws (InvariantViolation ''set'')
   \<and> fst (Record_subscribe (Record_destroy waiting_example) None (Some 0) False)
       = Throws (InvariantViolation ''subscribe'')
   \<and> fst (Record_unsubscribe (Record_destroy waiting_example) None (Some 0))
       = Throws (InvariantViolation ''unsubscribe'')
   \<and> fst (Record_whenReady (Record_destroy waiting_example)) = Throws (InvariantViolation ''whenReady'')
   \<and> fst (Record_discard (Record_destroy waiting_example) False) = Throws (InvariantViolation ''discard'')"
proof -
  have d: "isDestroyed (Record_destroy waiting_example)" by (rule Record_destroy_isDestroyed)
  have w: "Record_whenReady fresh_example = (Returns 0, waiting_example)"
    by (simp add: Record_whenReady_def fresh_example_def waiting_example_def)
  have p: "promises waiting_example ! 0 = Pending" by (simp add: waiting_example_def)
  have e: "promises (emit ''destroy'' waiting_example) ! 0 = Rejected ''destroyed''"
    by (simp add: emit_def waiting_example_def run_listener_def)
  have q: "promises (Record_destroy waiting_example) ! 0 = Pending"
    using p by (simp add: Record_destroy_promises)
  show ?thesis
    using w p e q d destroyed_operations_fail[OF d] by simp
qed

subsection \<open>Outbound versions\<close>








lemma update_versions_append:
  "update_versions (xs @ ys) = update_versions xs @ update_versions ys"
  by (induction xs rule: update_versions.induct) auto



lemma same_core_refl: "same_core r r"
  by (simp add: same_core_def)

lemma dispatchUpdate_dispatched:
  "dispatched k (version r) r (dispatchUpdate k (r\<lparr>isReady := True\<rparr>))"
  by (simp add: dispatched_def dispatchUpdate_def Let_def update_versions_append)





lemma emit_same_core: "same_core r (emit ev r)"
  by (simp add: same_core_def emit_def)


















section \<open>Properties of the registry\<close>

declare prune_loop.simps [simp del]

















lemma prune_example:
  "map (\<lambda>r. (usages r, isDestroyed r))
     (objects (hrun new_RecordHandler
        [HGetRecord ''r'' 1, HHandle ''r'' (MsgUPDATE (Some ''1-X'') (TObj [])) ''N'',
         HDiscard 0 False, HPrune]))
   = [(0, True)]"
  by (simp add: hrun_def getRecord_def new_Record_def new_RecordHandler_def Record_discard_def
      Record_onMessage_def onRead_def initial_value_def applyChange_def emit_def prune_def
      prune_loop.simps Record_destroy_def Let_def)

section \<open>Properties of the heartbeat\<close>

text \<open>
  Claim C9, as the code has it. On a tick of the heartbeat timer with the endpoint
  open, the Connection of unnamed/part_002 compares the time since the last heartbeat
  with three times the interval: beyond it, it clears the timer, closes the endpoint
  and reports \<open>heartbeat not received\<close> to the client; otherwise it submits a \<^verbatim>\<open>PING\<close>. On
  \<^verbatim>\<open>PING\<close> it stores the time and replies \<^verbatim>\<open>PONG\<close>; on \<^verbatim>\<open>PONG\<close> it stores the time. The
  Connection of src/message/connection.js tolerates twice the interval, closes and
  reports in the same way, and answers \<^verbatim>\<open>PING\<close> in the same way; but within the
  tolerance its tick does nothing, and a \<^verbatim>\<open>PONG\<close> changes nothing.
\<close>

theorem heartbeat_tick_and_reply:
  assumes "endpointOpen c"
  shows "checkHeartBeat c now =
           (if elapsed c now > heartbeatIntervalOption c * 3
            then heartbeat_lost c (heartbeatIntervalOption c * 3)
            else c\<lparr>endpointSent := endpointSent c @ [PING]\<rparr>)
       \<and> handleConnectionResponse c now PING
           = c\<lparr>lastHeartBeat := Some now, endpointSent := endpointSent c @ [PONG]\<rparr>
       \<and> handleConnectionResponse c now PONG = c\<lparr>lastHeartBeat := Some now\<rparr>
       \<and> checkHeartBeat_connjs c now =
           (if elapsed c now > heartbeatIntervalOption c * 2
            then heartbeat_lost c (heartbeatIntervalOption c * 2)
            else c)
       \<and> handleConnectionResponse_connjs c now PING
           = c\<lparr>lastHeartBeat := Some now, endpointSent := endpointSent c @ [PONG]\<rparr>
       \<and> handleConnectionResponse_connjs c now PONG = c
       \<and> endpointCloses (heartbeat_lost c t) = endpointCloses c + 1
       \<and> clientErrors (heartbeat_lost c t) =
           clientErrors c @ [(''CONNECTION_ERROR'',
             ''heartbeat not received in the last '' @ show_num (Some t) @ '' milliseconds'')]"
  using assms
  by (simp add: checkHeartBeat_def handleConnectionResponse_def submit_def
      checkHeartBeat_connjs_def handleConnectionResponse_connjs_def submit_connjs_def
      heartbeat_lost_def Let_def)

theorem heartbeat_tick_and_reply_witness:
  "endpointOpen open_example
   \<and> endpointSent (checkHeartBeat open_example 90000) = [PING]
   \<and> endpointCloses (checkHeartBeat open_example 90001) = 1
   \<and> endpointSent (checkHeartBeat open_example 90001) = []
   \<and> lastHeartBeat (handleConnectionResponse open_example 500 PONG) = Some 500
   \<and> endpointSent (handleConnectionResponse open_example 500 PING) = [PONG]
   \<and> endpointCloses (checkHeartBeat_connjs open_example 60001) = 1"
proof -
  have h: "endpointOpen open_example" by (simp add: open_example_def)
  note t = heartbeat_tick_and_reply[OF h]
  have e: "elapsed open_example 90000 = 90000" "elapsed open_example 90001 = 90001"
    "elapsed open_example 60001 = 60001" "heartbeatIntervalOption open_example = 30000"
    "endpointSent open_example = []" "endpointCloses open_example = 0"
    by (simp_all add: elapsed_def open_example_def)
  show ?thesis
    using h t[of 90000] t[of 90001] t[of 500] t[of 60001]
    by (simp add: e heartbeat_lost_def)
qed

text \<open>
  Claim C9 as stated fails on src/message/connection.js: a tick within the tolerance
  sends no \<^verbatim>\<open>PING\<close>, and an inbound \<^verbatim>\<open>PONG\<close> leaves the time of the last heartbeat as it
  was.
\<close>

theorem heartbeat_connjs_counterexample:
  "endpointOpen open_example
   \<and> \<not> elapsed open_example 1000 > heartbeatIntervalOption open_example * 2
   \<and> endpointSent (checkHeartBeat_connjs open_example 1000) = []
   \<and> lastHeartBeat (handleConnectionResponse_connjs open_example 1000 PONG) = Some 0"
  by (simp add: checkHeartBeat_connjs_def handleConnectionResponse_connjs_def elapsed_def
      open_example_def)

end
